theory Spec2Isabelle
  imports Complex_Main "HOL-Library.Word"
begin

section \<open>Python values, exceptions and dictionaries\<close>

text \<open>
  The two notebooks are straight-line Python over the Azure AI Search and Azure OpenAI
  SDKs and pandas. Values that travel through them are strings, numbers, \<open>None\<close>/\<open>NaN\<close>
  and lists; a search result is a flat dictionary from field names to such values.
  A Python \<open>str\<close> is modelled as \<open>string\<close>. \<open>Int64\<close> is an integer field of a document,
  which the index stores in 64 bits; \<open>Num\<close> is a number given by its value: a float
  (a score, an embedding component, the temperature), or a count that is only printed.
\<close>

datatype val = Null | Str string | Int64 "64 word" | Num rat | Lst "val list"

text \<open>
  The exceptions that the notebooks' own statements and the constructors raise, and
  \<open>SdkError\<close> for whatever else an SDK call raises. \<open>KeyError\<close> carries the missing keys.
\<close>

datatype exn = KeyError "string list" | TypeError | IndexError | ValueError | SdkError string

text \<open>A dictionary with insertion order: an association list; a lookup takes the first entry.\<close>

type_synonym doc = "(string \<times> val) list"

definition getitem :: "doc \<Rightarrow> string \<Rightarrow> exn + val" where
  "getitem d k = (case map_of d k of None \<Rightarrow> Inl (KeyError [k]) | Some v \<Rightarrow> Inr v)"

text \<open>The process environment after \<open>load_dotenv(override=True)\<close>.\<close>

type_synonym environ = "string \<Rightarrow> string option"

definition environ_getitem :: "environ \<Rightarrow> string \<Rightarrow> exn + string" where
  "environ_getitem env k = (case env k of None \<Rightarrow> Inl (KeyError [k]) | Some v \<Rightarrow> Inr v)"

definition getenv :: "environ \<Rightarrow> string \<Rightarrow> string option" where
  "getenv env k = env k"

section \<open>The pandas operations used by \<open>display_results\<close>\<close>

text \<open>
  A data frame is kept column-major: the column labels in order, each with its cells
  (one per row). \<open>pd.json_normalize\<close> on a list of flat dictionaries takes the union
  of the keys in order of first appearance as columns and fills a missing key with
  \<open>NaN\<close>.
\<close>

type_synonym frame = "(string \<times> val list) list"

fun add_keys :: "string list \<Rightarrow> string list \<Rightarrow> string list" where
  "add_keys cols [] = cols"
| "add_keys cols (k # ks) = add_keys (if k \<in> set cols then cols else cols @ [k]) ks"

definition column_names :: "doc list \<Rightarrow> string list" where
  "column_names results = foldl add_keys [] (map (map fst) results)"

definition cell :: "string \<Rightarrow> doc \<Rightarrow> val" where
  "cell c d = (case map_of d c of None \<Rightarrow> Null | Some v \<Rightarrow> v)"

fun isna :: "val \<Rightarrow> bool" where
  "isna Null = True"
| "isna (Str s) = False"
| "isna (Int64 i) = False"
| "isna (Num x) = False"
| "isna (Lst xs) = False"

text \<open>
  The frame constructor infers a type for every column. A column that holds nothing but
  integers, floats and nulls, with an integer and with a float or a null among them, becomes
  a column of 64-bit floats: each integer is replaced by the nearest float, a tie going to
  the even mantissa of 53 bits. Every other column keeps its cells as they are.
\<close>

fun bit_length :: "nat \<Rightarrow> nat" where
  "bit_length n = (if n = 0 then 0 else Suc (bit_length (n div 2)))"

definition round_to_53_bits :: "nat \<Rightarrow> nat" where
  "round_to_53_bits n =
     (if n < 2 ^ 53 then n
      else (let e = bit_length n - 53; q = n div 2 ^ e; r = n mod 2 ^ e; h = 2 ^ (e - 1)
            in (if h < r \<or> (r = h \<and> odd q) then q + 1 else q) * 2 ^ e))"

definition float_of_int :: "int \<Rightarrow> rat" where
  "float_of_int i =
     (if i < 0 then - of_nat (round_to_53_bits (nat (- i)))
      else of_nat (round_to_53_bits (nat i)))"

fun numeric_or_null :: "val \<Rightarrow> bool" where
  "numeric_or_null Null = True"
| "numeric_or_null (Int64 i) = True"
| "numeric_or_null (Num x) = True"
| "numeric_or_null (Str s) = False"
| "numeric_or_null (Lst xs) = False"

fun is_int :: "val \<Rightarrow> bool" where
  "is_int (Int64 i) = True"
| "is_int Null = False"
| "is_int (Str s) = False"
| "is_int (Num x) = False"
| "is_int (Lst xs) = False"

fun is_float :: "val \<Rightarrow> bool" where
  "is_float (Num x) = True"
| "is_float Null = False"
| "is_float (Str s) = False"
| "is_float (Int64 i) = False"
| "is_float (Lst xs) = False"

fun as_float :: "val \<Rightarrow> val" where
  "as_float (Int64 i) = Num (float_of_int (sint i))"
| "as_float Null = Null"
| "as_float (Str s) = Str s"
| "as_float (Num x) = Num x"
| "as_float (Lst xs) = Lst xs"

definition maybe_convert_objects :: "val list \<Rightarrow> val list" where
  "maybe_convert_objects cells =
     (if list_all numeric_or_null cells \<and> list_ex is_int cells \<and>
         list_ex (\<lambda>v. isna v \<or> is_float v) cells
      then map as_float cells else cells)"

definition json_normalize :: "doc list \<Rightarrow> frame" where
  "json_normalize results =
     map (\<lambda>c. (c, maybe_convert_objects (map (cell c) results))) (column_names results)"

text \<open>\<open>df.dropna(axis=1, how='all')\<close>: a column goes when every cell of it is null.\<close>

definition dropna_all :: "frame \<Rightarrow> frame" where
  "dropna_all df = filter (\<lambda>col. \<not> list_all isna (snd col)) df"

text \<open>\<open>df[c]\<close> for one label, and \<open>df[c] = cells\<close>.\<close>

definition getitem_column :: "frame \<Rightarrow> string \<Rightarrow> exn + val list" where
  "getitem_column df c = (case map_of df c of None \<Rightarrow> Inl (KeyError [c]) | Some vs \<Rightarrow> Inr vs)"

definition setitem_column :: "frame \<Rightarrow> string \<Rightarrow> val list \<Rightarrow> frame" where
  "setitem_column df c vs =
     (if c \<in> fst ` set df then map (\<lambda>col. if fst col = c then (c, vs) else col) df
      else df @ [(c, vs)])"

text \<open>\<open>df[labels]\<close> for a list of labels: a \<open>KeyError\<close> naming the labels that are not columns.\<close>

definition getitem_columns :: "frame \<Rightarrow> string list \<Rightarrow> exn + frame" where
  "getitem_columns df cs =
     (let missing = filter (\<lambda>c. c \<notin> fst ` set df) cs in
      if missing \<noteq> [] then Inl (KeyError missing)
      else Inr (List.map_filter (\<lambda>c. map_option (Pair c) (map_of df c)) cs))"

text \<open>
  The lambda of \<open>display_results\<close>: \<open>c[:300] + '...' if len(c) > 300 else c\<close>.
  \<open>len\<close> of \<open>None\<close>, \<open>NaN\<close> or a number raises \<open>TypeError\<close>, and so does a list plus
  a string.
\<close>

fun truncate_chunk :: "val \<Rightarrow> exn + val" where
  "truncate_chunk (Str c) = Inr (if length c > 300 then Str (take 300 c @ ''...'') else Str c)"
| "truncate_chunk (Lst c) = (if length c > 300 then Inl TypeError else Inr (Lst c))"
| "truncate_chunk Null = Inl TypeError"
| "truncate_chunk (Int64 i) = Inl TypeError"
| "truncate_chunk (Num x) = Inl TypeError"

text \<open>\<open>Series.apply\<close>: the function on every cell in order; the first exception ends it.\<close>

fun series_apply :: "(val \<Rightarrow> exn + val) \<Rightarrow> val list \<Rightarrow> exn + val list" where
  "series_apply f [] = Inr []"
| "series_apply f (v # vs) =
     (case f v of Inl e \<Rightarrow> Inl e
      | Inr w \<Rightarrow> (case series_apply f vs of Inl e \<Rightarrow> Inl e | Inr ws \<Rightarrow> Inr (w # ws)))"

text \<open>The truncation step, \<open>df["chunk"] = df["chunk"].apply(...)\<close>.\<close>

definition truncate_chunks :: "frame \<Rightarrow> exn + frame" where
  "truncate_chunks df =
     (case getitem_column df ''chunk'' of
        Inl e \<Rightarrow> Inl e
      | Inr chunks \<Rightarrow>
         (case series_apply truncate_chunk chunks of
            Inl e \<Rightarrow> Inl e
          | Inr chunks' \<Rightarrow> Inr (setitem_column df ''chunk'' chunks')))"

text \<open>The \<open>Styler\<close> that \<open>display_results\<close> returns: the table, its CSS properties, the index hidden.\<close>

record styler =
  table :: frame
  properties :: "(string \<times> string) list"
  index_hidden :: bool

definition first_cols :: "string list" where
  "first_cols = [''title'', ''chunk'', ''@search.score'']"

text \<open>\<open>df.style.set_properties(**{...}).hide(axis="index")\<close>.\<close>

definition styled :: "frame \<Rightarrow> styler" where
  "styled df =
     \<lparr>table = df,
      properties = [(''max-width'', ''500px''), (''text-align'', ''left''),
                    (''white-space'', ''normal''), (''word-wrap'', ''break-word'')],
      index_hidden = True\<rparr>"

definition display_results :: "doc list \<Rightarrow> exn + styler" where
  "display_results results =
     (let df = dropna_all (json_normalize results) in
      (case truncate_chunks df of
         Inl e \<Rightarrow> Inl e
       | Inr df \<Rightarrow>
          (case getitem_columns df
                  (first_cols @ filter (\<lambda>col. col \<notin> set first_cols) (map fst df)) of
             Inl e \<Rightarrow> Inl e
           | Inr df \<Rightarrow> Inr (styled df))))"

section \<open>The SDK objects the notebooks build\<close>

text \<open>
  Credentials, the two clients and the search request are recorded with the arguments
  the notebooks pass. \<open>AzureKeyCredential(key)\<close> checks that its key is a string and
  raises \<open>TypeError\<close> otherwise, which is what \<open>os.getenv\<close> of an unset variable leads to.
\<close>

datatype credential = AzureKeyCredential string | DefaultAzureCredential

definition new_AzureKeyCredential :: "string option \<Rightarrow> exn + credential" where
  "new_AzureKeyCredential key =
     (case key of None \<Rightarrow> Inl TypeError | Some k \<Rightarrow> Inr (AzureKeyCredential k))"

datatype token_provider = get_bearer_token_provider credential string

datatype openai_auth = api_key string | azure_ad_token_provider token_provider

record openai_client =
  auth :: openai_auth
  azure_endpoint :: string
  api_version :: string

record search_client =
  endpoint :: string
  index_name :: string
  credential :: credential

text \<open>
  A vector query is either \<open>VectorizableTextQuery(text, k_nearest_neighbors, fields)\<close>, which
  the service embeds, or \<open>VectorizedQuery(vector, k_nearest_neighbors, fields)\<close>, which carries
  a vector computed by the caller. The RAG notebook imports both classes.
\<close>

datatype vector_query =
    VectorizableTextQuery string nat string
  | VectorizedQuery "rat list" nat string

text \<open>The keyword arguments of \<open>SearchClient.search\<close>; an argument that is not passed is \<open>None\<close>.\<close>

record search_request =
  search_text :: "string option"
  vector_queries :: "vector_query list option"
  top_n :: "nat option"
  select :: "string list option"
  query_type :: "string option"
  semantic_configuration_name :: "string option"

record message =
  role :: string
  content :: string

text \<open>
  What lies behind the SDK is a parameter of the model. \<open>search\<close> gives the results that
  the returned pager yields, or the exception the request ends in (the SDK sends the request
  when the pager is first iterated, which every cell does right after the call).
  \<open>embeddings_create\<close> gives the \<open>embedding\<close> of each element of the response's \<open>data\<close>;
  \<open>chat_completions_create\<close> gives the \<open>message.content\<close> of each of the response's
  \<open>choices\<close>. \<open>search_client_check\<close> and \<open>openai_client_check\<close> give the exception, if
  any, with which a client constructor refuses arguments that are all strings (an endpoint
  that is not an https URL, for one).
\<close>

record sdk =
  search_client_check :: "string \<Rightarrow> string \<Rightarrow> credential \<Rightarrow> exn option"
  openai_client_check :: "openai_auth \<Rightarrow> string \<Rightarrow> string \<Rightarrow> exn option"
  search :: "search_client \<Rightarrow> search_request \<Rightarrow> exn + doc list"
  embeddings_create :: "openai_client \<Rightarrow> string option \<Rightarrow> string \<Rightarrow> exn + rat list list"
  chat_completions_create ::
    "openai_client \<Rightarrow> string option \<Rightarrow> rat \<Rightarrow> message list \<Rightarrow> exn + string list"

text \<open>
  \<open>SearchClient(endpoint, index_name, credential)\<close> and
  \<open>AzureOpenAI(..., azure_endpoint=..., api_version=...)\<close>: an endpoint or an index name that
  is \<open>None\<close> is a \<open>ValueError\<close>.
\<close>

definition SearchClient ::
  "sdk \<Rightarrow> string option \<Rightarrow> string option \<Rightarrow> credential \<Rightarrow> exn + search_client" where
  "SearchClient s endpoint' index_name' credential' =
     (case endpoint' of
        None \<Rightarrow> Inl ValueError
      | Some ep \<Rightarrow>
         (case index_name' of
            None \<Rightarrow> Inl ValueError
          | Some ix \<Rightarrow>
             (case search_client_check s ep ix credential' of
                Some e \<Rightarrow> Inl e
              | None \<Rightarrow> Inr \<lparr>endpoint = ep, index_name = ix, credential = credential'\<rparr>)))"

definition AzureOpenAI ::
  "sdk \<Rightarrow> openai_auth \<Rightarrow> string option \<Rightarrow> string \<Rightarrow> exn + openai_client" where
  "AzureOpenAI s auth' azure_endpoint' api_version' =
     (case azure_endpoint' of
        None \<Rightarrow> Inl ValueError
      | Some ep \<Rightarrow>
         (case openai_client_check s auth' ep api_version' of
            Some e \<Rightarrow> Inl e
          | None \<Rightarrow> Inr \<lparr>auth = auth', azure_endpoint = ep, api_version = api_version'\<rparr>))"

section \<open>The search notebook\<close>

text \<open>Step 3: \<open>os.environ[...]\<close> for the endpoint and the index, \<open>os.getenv\<close> for the key.\<close>

definition load_environment :: "environ \<Rightarrow> exn + (string \<times> string \<times> credential)" where
  "load_environment env =
     (case environ_getitem env ''AZURE_SEARCH_SERVICE_ENDPOINT'' of
        Inl e \<Rightarrow> Inl e
      | Inr endpoint' \<Rightarrow>
         (case environ_getitem env ''AZURE_SEARCH_INDEX'' of
            Inl e \<Rightarrow> Inl e
          | Inr index_name' \<Rightarrow>
             (case new_AzureKeyCredential (getenv env ''AZURE_SEARCH_ADMIN_KEY'') of
                Inl e \<Rightarrow> Inl e
              | Inr credential' \<Rightarrow> Inr (endpoint', index_name', credential'))))"

text \<open>Step 4: \<open>SearchClient(endpoint, index_name, credential)\<close>.\<close>

definition new_SearchClient :: "sdk \<Rightarrow> string \<times> string \<times> credential \<Rightarrow> exn + search_client" where
  "new_SearchClient s args =
     (case args of (endpoint', index_name', credential') \<Rightarrow>
        SearchClient s (Some endpoint') (Some index_name') credential')"




definition hybrid_request :: "string \<Rightarrow> search_request" where
  "hybrid_request q =
     \<lparr>search_text = Some q,
      vector_queries = Some [VectorizableTextQuery q 50 ''text_vector''],
      top_n = Some 5, select = Some [''title'', ''chunk''], query_type = None,
      semantic_configuration_name = None\<rparr>"

definition semantic_request :: "string \<Rightarrow> search_request" where
  "semantic_request q =
     \<lparr>search_text = Some q,
      vector_queries = Some [VectorizableTextQuery q 50 ''text_vector''],
      top_n = Some 5, select = Some [''title'', ''chunk''], query_type = Some ''semantic'',
      semantic_configuration_name = Some ''sopravector2-semantic-configuration''\<rparr>"

text \<open>A search cell: the call, then \<open>display_results(results)\<close> on what it yields.\<close>

definition search_cell :: "sdk \<Rightarrow> search_client \<Rightarrow> search_request \<Rightarrow> exn + styler" where
  "search_cell s client request =
     (case search s client request of Inl e \<Rightarrow> Inl e | Inr results \<Rightarrow> display_results results)"



section \<open>The RAG notebook\<close>

text \<open>
  Step 3: every variable is read with \<open>os.getenv\<close>; each client takes the key when the key
  variable is truthy (set and not empty) and \<open>DefaultAzureCredential\<close> otherwise.
\<close>

definition new_AzureOpenAI :: "sdk \<Rightarrow> environ \<Rightarrow> exn + openai_client" where
  "new_AzureOpenAI s env =
     (let AZURE_OPENAI_ENDPOINT = getenv env ''AZURE_OPENAI_ENDPOINT'';
          AZURE_OPENAI_API_KEY = getenv env ''AZURE_OPENAI_API_KEY'';
          managed =
            AzureOpenAI s
              (azure_ad_token_provider
                 (get_bearer_token_provider DefaultAzureCredential
                    ''https://cognitiveservices.azure.com/.default''))
              AZURE_OPENAI_ENDPOINT ''2024-10-21''
      in (case AZURE_OPENAI_API_KEY of
            None \<Rightarrow> managed
          | Some k \<Rightarrow>
              if k = [] then managed
              else AzureOpenAI s (api_key k) AZURE_OPENAI_ENDPOINT ''2024-10-21''))"

definition new_RagSearchClient :: "sdk \<Rightarrow> environ \<Rightarrow> exn + search_client" where
  "new_RagSearchClient s env =
     (let AZURE_SEARCH_ENDPOINT = getenv env ''AZURE_SEARCH_SERVICE_ENDPOINT'';
          AZURE_SEARCH_INDEX_NAME = getenv env ''AZURE_SEARCH_INDEX_NAME'';
          AZURE_SEARCH_ADMIN_KEY = getenv env ''AZURE_SEARCH_ADMIN_KEY'';
          managed =
            SearchClient s AZURE_SEARCH_ENDPOINT AZURE_SEARCH_INDEX_NAME DefaultAzureCredential
      in (case AZURE_SEARCH_ADMIN_KEY of
            None \<Rightarrow> managed
          | Some k \<Rightarrow>
              if k = [] then managed
              else SearchClient s AZURE_SEARCH_ENDPOINT AZURE_SEARCH_INDEX_NAME
                     (AzureKeyCredential k)))"

text \<open>\<open>get_embedding(text)\<close>: \<open>embeddings.create(model=..., input=text).data[0].embedding\<close>.\<close>

definition get_embedding :: "sdk \<Rightarrow> environ \<Rightarrow> openai_client \<Rightarrow> string \<Rightarrow> exn + rat list" where
  "get_embedding s env client inp =
     (case embeddings_create s client
             (getenv env ''AZURE_OPENAI_EMBEDDING_DEPLOYED_MODEL_NAME'') inp of
        Inl e \<Rightarrow> Inl e
      | Inr data \<Rightarrow> (case data of [] \<Rightarrow> Inl IndexError | d # rest \<Rightarrow> Inr d))"

definition user_question :: string where
  "user_question = ''Hvor ofte kan jeg bestille ny telefon?''"

text \<open>
  Standard output: one entry per \<open>print\<close> call, holding the values printed.
  Step 4 embeds the question and prints the vector and its length.
\<close>

type_synonym stdout = "val list list"

definition prepare_question ::
  "sdk \<Rightarrow> environ \<Rightarrow> openai_client \<Rightarrow> string \<Rightarrow> exn + (rat list \<times> stdout)" where
  "prepare_question s env client question =
     (case get_embedding s env client question of
        Inl e \<Rightarrow> Inl e
      | Inr user_question_vector \<Rightarrow>
          Inr (user_question_vector,
               [[Str ''Text embedding''], [Lst (map Num user_question_vector)],
                [Num (of_nat (length user_question_vector))]]))"

text \<open>
  \<open>search\<close> returns a pager, which is a Python iterator: \<open>iter\<close> of it is the pager itself, so
  a \<open>for\<close> loop takes the items that are left and leaves it exhausted. The pager is the list
  of the items it has not yielded yet; \<open>for_each\<close> is the \<open>for\<close> statement, returning the
  loop's state and the pager as the loop leaves it.
\<close>

fun for_each :: "('a \<Rightarrow> 's \<Rightarrow> exn + 's) \<Rightarrow> 'a list \<Rightarrow> 's \<Rightarrow> exn + ('s \<times> 'a list)" where
  "for_each body [] st = Inr (st, [])"
| "for_each body (x # pager) st =
     (case body x st of Inl e \<Rightarrow> Inl e | Inr st' \<Rightarrow> for_each body pager st')"

definition rag_request :: "string \<Rightarrow> search_request" where
  "rag_request question =
     \<lparr>search_text = None,
      vector_queries = Some [VectorizableTextQuery question 3 ''text_vector''],
      top_n = Some 3, select = None, query_type = None,
      semantic_configuration_name = None\<rparr>"

text \<open>The body of the printing loop of step 5.\<close>

definition print_result :: "doc \<Rightarrow> stdout \<Rightarrow> exn + stdout" where
  "print_result result out =
     (case getitem result ''chunk_id'' of
        Inl e \<Rightarrow> Inl e
      | Inr chunk_id \<Rightarrow>
         (case getitem result ''title'' of
            Inl e \<Rightarrow> Inl e
          | Inr title \<Rightarrow>
             (case getitem result ''chunk'' of
                Inl e \<Rightarrow> Inl e
              | Inr chunk \<Rightarrow>
                  Inr (out @ [[Str ''Chunk ID:'', chunk_id], [Str ''Title:'', title],
                              [Str ''Text:'', chunk], []]))))"

text \<open>Step 5: the search, then the printing loop over \<open>search_results\<close>.\<close>

definition retrieve :: "sdk \<Rightarrow> search_client \<Rightarrow> string \<Rightarrow> exn + (stdout \<times> doc list)" where
  "retrieve s client question =
     (case search s client (rag_request question) of
        Inl e \<Rightarrow> Inl e
      | Inr search_results \<Rightarrow> for_each print_result search_results [])"

text \<open>
  The body of the context loop of step 6: \<open>context += result["chunk"] + "\n\n"\<close>; only a
  string can be added to a string.
\<close>

definition add_chunk :: "doc \<Rightarrow> string \<Rightarrow> exn + string" where
  "add_chunk result ctx =
     (case getitem result ''chunk'' of
        Inl e \<Rightarrow> Inl e
      | Inr v \<Rightarrow> (case v of Str c \<Rightarrow> Inr (ctx @ c @ [CHR 0x0A, CHR 0x0A]) | _ \<Rightarrow> Inl TypeError))"

text \<open>The f-string \<open>SYSTEM_MESSAGE\<close>, with the context in its place.\<close>

definition system_message :: "string \<Rightarrow> string" where
  "system_message ctx =
     [CHR 0x0A] @ ''Du er en AI Assistent som har innsikt i Sopra Steria sin personalh''
     @ [CHR 0xE5] @ ''ndbok vedlagt som context.'' @ [CHR 0x0A]
     @ ''V'' @ [CHR 0xE6]
     @ ''r kortfattet og detaljert i svarene dine, bruk kun informasjon fra fra personalh''
     @ [CHR 0xE5] @ ''ndboken.'' @ [CHR 0x0A, CHR 0x0A]
     @ ''Context:'' @ [CHR 0x0A] @ ctx @ [CHR 0x0A]"

text \<open>The globals of the RAG notebook after its last cell.\<close>

record rag_globals =
  user_question_vector :: "rat list"
  search_results :: "doc list"
  context' :: string
  SYSTEM_MESSAGE :: string
  USER_MESSAGE :: string
  messages :: "message list"
  answer :: string
  printed :: stdout

text \<open>
  Step 6: the context loop over \<open>search_results\<close> (the pager as step 5 left it), the chat
  completion, \<open>response.choices[0].message.content\<close>.
\<close>

definition generate ::
  "sdk \<Rightarrow> environ \<Rightarrow> openai_client \<Rightarrow> string \<Rightarrow> rat list \<Rightarrow> doc list \<Rightarrow> stdout
     \<Rightarrow> exn + rag_globals" where
  "generate s env client question vec pager out =
     (case for_each add_chunk pager [] of
        Inl e \<Rightarrow> Inl e
      | Inr (ctx, pager') \<Rightarrow>
         (let msgs = [\<lparr>role = ''system'', content = system_message ctx\<rparr>,
                      \<lparr>role = ''user'', content = question\<rparr>]
          in (case chat_completions_create s client
                     (getenv env ''AZURE_OPENAI_CHAT_COMPLETION_DEPLOYED_MODEL_NAME'')
                     (7 / 10) msgs of
                Inl e \<Rightarrow> Inl e
              | Inr choices \<Rightarrow>
                 (case choices of
                    [] \<Rightarrow> Inl IndexError
                  | a # rest \<Rightarrow>
                      Inr \<lparr>user_question_vector = vec, search_results = pager',
                           context' = ctx, SYSTEM_MESSAGE = system_message ctx,
                           USER_MESSAGE = question, messages = msgs, answer = a,
                           printed = out @ [[Str a]]\<rparr>))))"

text \<open>The notebook run top to bottom on a question.\<close>

definition rag_notebook :: "sdk \<Rightarrow> environ \<Rightarrow> string \<Rightarrow> exn + rag_globals" where
  "rag_notebook s env question =
     (case new_AzureOpenAI s env of
        Inl e \<Rightarrow> Inl e
      | Inr openai \<Rightarrow>
         (case new_RagSearchClient s env of
            Inl e \<Rightarrow> Inl e
          | Inr client \<Rightarrow>
             (case prepare_question s env openai question of
                Inl e \<Rightarrow> Inl e
              | Inr (vec, out1) \<Rightarrow>
                 (case retrieve s client question of
                    Inl e \<Rightarrow> Inl e
                  | Inr (out2, pager) \<Rightarrow>
                      generate s env openai question vec pager (out1 @ out2)))))"

section \<open>Notions used in the statements\<close>

text \<open>
  A field is null throughout a result set when no result has a value for it other than
  \<open>None\<close>; a field that no result has as a key is such a field. The columns that
  \<open>dropna\<close> keeps are the others.
\<close>

definition all_null :: "string \<Rightarrow> doc list \<Rightarrow> bool" where
  "all_null c results = list_all (\<lambda>d. isna (cell c d)) results"

definition kept_columns :: "doc list \<Rightarrow> string list" where
  "kept_columns results = filter (\<lambda>c. \<not> all_null c results) (column_names results)"

text \<open>The cells shown in column \<open>c\<close>, given the cells of the rewritten chunk column.\<close>

definition shown :: "doc list \<Rightarrow> val list \<Rightarrow> string \<Rightarrow> val list" where
  "shown results chunks' c =
     (if c = ''chunk'' then chunks' else maybe_convert_objects (map (cell c) results))"

fun is_str :: "val \<Rightarrow> bool" where
  "is_str (Str s) = True"
| "is_str Null = False"
| "is_str (Int64 i) = False"
| "is_str (Num x) = False"
| "is_str (Lst xs) = False"

text \<open>The chunks on which the lambda of the truncation step does not raise: a string, or a
  list of at most 300 items.\<close>

fun chunk_ok :: "val \<Rightarrow> bool" where
  "chunk_ok (Str s) = True"
| "chunk_ok (Lst xs) = (length xs \<le> 300)"
| "chunk_ok Null = False"
| "chunk_ok (Int64 i) = False"
| "chunk_ok (Num x) = False"


definition text_lines :: "stdout \<Rightarrow> stdout" where
  "text_lines out = filter (\<lambda>line. take 1 line = [Str ''Text:'']) out"

section \<open>Concrete inputs\<close>

text \<open>
  Two results as the search hands them to \<open>display_results\<close>: one chunk of 301 characters,
  a caption field that is null in both, and an \<open>id\<close> that only the second one has; and
  the table that \<open>display_results\<close> makes of them.
\<close>

definition results0 :: "doc list" where
  "results0 =
     [[(''title'', Str ''Permisjon''), (''chunk'', Str (replicate 301 (CHR ''x''))),
       (''@search.score'', Num 1), (''@search.captions'', Null)],
      [(''chunk'', Str ''short''), (''title'', Str ''Telefon''), (''@search.score'', Num (1 / 2)),
       (''@search.captions'', Null), (''id'', Str ''7'')]]"

definition table0 :: frame where
  "table0 =
     [(''title'', [Str ''Permisjon'', Str ''Telefon'']),
      (''chunk'', [Str (replicate 300 (CHR ''x'') @ ''...''), Str ''short'']),
      (''@search.score'', [Num 1, Num (1 / 2)]),
      (''id'', [Null, Str ''7''])]"

text \<open>Results of a search that selected no title, with string chunks and with a null chunk.\<close>

definition results_without_title :: "doc list" where
  "results_without_title =
     [[(''chunk'', Str ''Ny telefon.''), (''@search.score'', Num 1)],
      [(''chunk'', Str ''Ferie.''), (''@search.score'', Num (1 / 2))]]"

definition results_null_chunk :: "doc list" where
  "results_null_chunk =
     [[(''chunk'', Null), (''@search.score'', Num 1)],
      [(''chunk'', Str ''Ferie.''), (''@search.score'', Num (1 / 2))]]"

text \<open>
  An index of six chunks and a search service over it that returns the first \<open>top\<close>
  documents (fifty when \<open>top\<close> is not given), restricted to the selected fields and the
  score fields; an embedding service and a chat service with fixed answers.
\<close>

definition mk_doc :: "string \<Rightarrow> string \<Rightarrow> string \<Rightarrow> rat \<Rightarrow> doc" where
  "mk_doc i t c sc =
     [(''chunk_id'', Str i), (''title'', Str t), (''chunk'', Str c), (''@search.score'', Num sc),
      (''@search.reranker_score'', Null)]"

definition index0 :: "doc list" where
  "index0 =
     [mk_doc ''c1'' ''Telefon'' ''Ny telefon kan bestilles hvert annet aar.'' (9 / 10),
      mk_doc ''c2'' ''Permisjon'' ''Pappapermisjon er femten uker.'' (8 / 10),
      mk_doc ''c3'' ''Ferie'' ''Fem uker ferie.'' (7 / 10),
      mk_doc ''c4'' ''Reise'' ''Reiser bestilles i portalen.'' (6 / 10),
      mk_doc ''c5'' ''Pensjon'' ''Innskuddspensjon.'' (5 / 10),
      mk_doc ''c6'' ''Forsikring'' ''Gruppeliv.'' (4 / 10)]"

definition project :: "string list option \<Rightarrow> doc \<Rightarrow> doc" where
  "project sel d =
     (case sel of
        None \<Rightarrow> d
      | Some fs \<Rightarrow>
          filter (\<lambda>kv. fst kv \<in> set (fs @ [''@search.score'', ''@search.reranker_score''])) d)"

definition service0 :: sdk where
  "service0 =
     \<lparr>search_client_check = (\<lambda>ep ix cred. None),
      openai_client_check = (\<lambda>au ep ver. None),
      search = (\<lambda>client request.
        Inr (map (project (select request))
               (take (case top_n request of None \<Rightarrow> 50 | Some k \<Rightarrow> k) index0))),
      embeddings_create = (\<lambda>client model inp. Inr [[1 / 10, 2 / 10]]),
      chat_completions_create = (\<lambda>client model temperature msgs. Inr [''Hvert annet aar.''])\<rparr>"






text \<open>The environment that the notebooks' own \<open>.env\<close> cells describe: both keys empty.\<close>

definition env0 :: environ where
  "env0 = map_of
     [(''AZURE_OPENAI_ENDPOINT'', ''https://aoai-fastai-rag.openai.azure.com/''),
      (''AZURE_OPENAI_CHAT_COMPLETION_DEPLOYED_MODEL_NAME'', ''gpt-4o-mini''),
      (''AZURE_OPENAI_EMBEDDING_DEPLOYED_MODEL_NAME'', ''text-embedding-3-large''),
      (''AZURE_SEARCH_SERVICE_ENDPOINT'', ''https://aisearch-fastai-rag.search.windows.net''),
      (''AZURE_SEARCH_INDEX'', ''sopravector2''),
      (''AZURE_SEARCH_INDEX_NAME'', ''sopravector''),
      (''AZURE_SEARCH_ADMIN_KEY'', ''''),
      (''AZURE_OPENAI_API_KEY'', '''')]"

text \<open>The clients that the two notebooks build in that environment.\<close>

definition openai0 :: openai_client where
  "openai0 =
     \<lparr>auth = azure_ad_token_provider
               (get_bearer_token_provider DefaultAzureCredential
                  ''https://cognitiveservices.azure.com/.default''),
      azure_endpoint = ''https://aoai-fastai-rag.openai.azure.com/'',
      api_version = ''2024-10-21''\<rparr>"

definition rag_client0 :: search_client where
  "rag_client0 =
     \<lparr>endpoint = ''https://aisearch-fastai-rag.search.windows.net'',
      index_name = ''sopravector'', credential = DefaultAzureCredential\<rparr>"

definition search_client0 :: search_client where
  "search_client0 =
     \<lparr>endpoint = ''https://aisearch-fastai-rag.search.windows.net'',
      index_name = ''sopravector2'', credential = AzureKeyCredential []\<rparr>"

section \<open>What \<open>display_results\<close> computes\<close>

lemma set_add_keys: "set (add_keys cols ks) = set cols \<union> set ks"
  by (induction ks arbitrary: cols) auto

lemma distinct_add_keys: "distinct cols \<Longrightarrow> distinct (add_keys cols ks)"
  by (induction ks arbitrary: cols) auto

lemma set_foldl_add_keys: "set (foldl add_keys acc kss) = set acc \<union> \<Union> (set ` set kss)"
  by (induction kss arbitrary: acc) (auto simp: set_add_keys)

lemma distinct_foldl_add_keys: "distinct acc \<Longrightarrow> distinct (foldl add_keys acc kss)"
  by (induction kss arbitrary: acc) (auto simp: distinct_add_keys)

lemma set_column_names: "set (column_names results) = (\<Union>d \<in> set results. fst ` set d)"
  by (simp add: column_names_def set_foldl_add_keys)

lemma distinct_column_names: "distinct (column_names results)"
  by (simp add: column_names_def distinct_foldl_add_keys)

lemma cell_not_null_key: "\<not> isna (cell c d) \<Longrightarrow> c \<in> fst ` set d"
  by (auto simp: cell_def split: option.splits dest: map_of_SomeD intro: rev_image_eqI)

lemma not_all_null_column: "\<not> all_null c results \<Longrightarrow> c \<in> set (column_names results)"
  unfolding all_null_def list_all_iff set_column_names using cell_not_null_key by blast

lemma set_kept_columns: "c \<in> set (kept_columns results) \<longleftrightarrow> \<not> all_null c results"
  by (auto simp: kept_columns_def dest: not_all_null_column)

lemma all_null_Nil: "all_null c []"
  by (simp add: all_null_def)

text \<open>The type inference of a column changes neither its length nor which cells are null,
  and the lambda of the truncation step raises on the column as it would on the cells
  before the inference.\<close>

lemma length_maybe_convert_objects [simp]:
  "length (maybe_convert_objects vs) = length vs"
  by (simp add: maybe_convert_objects_def)

lemma isna_as_float [simp]: "isna (as_float v) = isna v"
  by (cases v) auto

lemma isna_maybe_convert_objects [simp]:
  "list_all isna (maybe_convert_objects vs) = list_all isna vs"
  by (simp add: maybe_convert_objects_def list.pred_map comp_def)

lemma truncate_chunk_numeric: "numeric_or_null v \<Longrightarrow> truncate_chunk v = Inl TypeError"
  by (cases v) auto

lemma numeric_or_null_as_float [simp]: "numeric_or_null (as_float v) = numeric_or_null v"
  by (cases v) auto

lemma series_apply_maybe_convert_objects:
  "series_apply truncate_chunk (maybe_convert_objects vs) = series_apply truncate_chunk vs"
proof (cases "list_all numeric_or_null vs \<and> list_ex is_int vs \<and>
         list_ex (\<lambda>v. isna v \<or> is_float v) vs")
  case False
  then show ?thesis unfolding maybe_convert_objects_def by (simp only: if_False)
next
  case True
  then obtain v vs' where vs: "vs = v # vs'" and n: "numeric_or_null v"
    by (cases vs) auto
  from True have m: "maybe_convert_objects vs = as_float v # map as_float vs'"
    by (simp add: maybe_convert_objects_def vs)
  show ?thesis
    unfolding m unfolding vs using n by (simp add: truncate_chunk_numeric)
qed

text \<open>After \<open>json_normalize\<close> and \<open>dropna\<close> the frame holds the kept columns, each with the
  cell of every result as the type inference leaves it.\<close>

lemma dropna_json_normalize:
  "dropna_all (json_normalize results) =
     map (\<lambda>c. (c, maybe_convert_objects (map (cell c) results))) (kept_columns results)"
  by (simp add: dropna_all_def json_normalize_def kept_columns_def filter_map comp_def
      all_null_def list.pred_map)

lemma map_of_tabulate:
  "map_of (map (\<lambda>c. (c, f c)) cs) k = (if k \<in> set cs then Some (f k) else None)"
  by (induction cs) auto

lemma getitem_column_tabulate:
  "getitem_column (map (\<lambda>c. (c, f c)) cs) k =
     (if k \<in> set cs then Inr (f k) else Inl (KeyError [k]))"
  by (simp add: getitem_column_def map_of_tabulate)

lemma setitem_column_tabulate:
  "k \<in> set cs \<Longrightarrow>
   setitem_column (map (\<lambda>c. (c, f c)) cs) k vs = map (\<lambda>c. (c, if c = k then vs else f c)) cs"
  by (auto simp: setitem_column_def image_iff)

lemma getitem_columns_tabulate:
  "getitem_columns (map (\<lambda>c. (c, f c)) cs) ks =
     (if filter (\<lambda>k. k \<notin> set cs) ks \<noteq> [] then Inl (KeyError (filter (\<lambda>k. k \<notin> set cs) ks))
      else Inr (map (\<lambda>c. (c, f c)) ks))"
proof -
  have img: "fst ` set (map (\<lambda>c. (c, f c)) cs) = set cs"
    by (auto simp: image_iff)
  have "List.map_filter (\<lambda>c. map_option (Pair c) (map_of (map (\<lambda>c. (c, f c)) cs) c)) ks
          = map (\<lambda>c. (c, f c)) ks" if "filter (\<lambda>k. k \<notin> set cs) ks = []"
    using that by (induction ks) (auto simp: map_filter_simps map_of_tabulate split: if_splits)
  then show ?thesis
    unfolding getitem_columns_def Let_def img by auto
qed

lemma series_apply_Inr:
  "series_apply f vs = Inr ws \<Longrightarrow> list_all2 (\<lambda>v w. f v = Inr w) vs ws"
  by (induction vs arbitrary: ws) (auto split: sum.splits)

lemma truncate_chunk_ok: "chunk_ok v \<Longrightarrow> \<exists>w. truncate_chunk v = Inr w"
  by (cases v) auto

lemma truncate_chunk_not_ok: "\<not> chunk_ok v \<Longrightarrow> truncate_chunk v = Inl TypeError"
  by (cases v) auto

text \<open>The lambda goes through a column exactly when every cell is a string or a list of at
  most 300 items; otherwise the step ends in \<open>TypeError\<close>.\<close>

lemma series_apply_ok:
  "list_all chunk_ok vs \<Longrightarrow> \<exists>ws. series_apply truncate_chunk vs = Inr ws"
proof (induction vs)
  case Nil
  then show ?case by simp
next
  case (Cons v vs)
  then obtain ws where "series_apply truncate_chunk vs = Inr ws" by auto
  moreover from Cons.prems obtain w where "truncate_chunk v = Inr w"
    using truncate_chunk_ok by auto
  ultimately show ?case by simp
qed

lemma series_apply_not_ok:
  "\<not> list_all chunk_ok vs \<Longrightarrow> series_apply truncate_chunk vs = Inl TypeError"
proof (induction vs)
  case Nil
  then show ?case by simp
next
  case (Cons v vs)
  show ?case
  proof (cases "chunk_ok v")
    case True
    then obtain w where "truncate_chunk v = Inr w" using truncate_chunk_ok by auto
    moreover from True Cons have "series_apply truncate_chunk vs = Inl TypeError" by simp
    ultimately show ?thesis by simp
  next
    case False
    then show ?thesis by (simp add: truncate_chunk_not_ok)
  qed
qed

lemma is_str_chunk_ok: "is_str v \<Longrightarrow> chunk_ok v"
  by (cases v) auto

text \<open>The truncation step on any frame: the labels stay, the chunk column is rewritten cell
  by cell, and every other column is looked up as before.\<close>

lemma truncate_chunks_frame:
  assumes "truncate_chunks df = Inr df'"
  shows "map fst df' = map fst df \<and>
         (\<forall>k. k \<noteq> ''chunk'' \<longrightarrow> map_of df' k = map_of df k) \<and>
         (\<exists>chunks chunks'. map_of df ''chunk'' = Some chunks \<and>
             map_of df' ''chunk'' = Some chunks' \<and>
             list_all2 (\<lambda>v w. truncate_chunk v = Inr w) chunks chunks')"
proof -
  from assms obtain chunks chunks' where
    g: "map_of df ''chunk'' = Some chunks" and
    a: "series_apply truncate_chunk chunks = Inr chunks'" and
    d: "df' = setitem_column df ''chunk'' chunks'"
    by (auto simp: truncate_chunks_def getitem_column_def split: option.splits sum.splits)
  from g have mem: "''chunk'' \<in> fst ` set df"
    by (auto dest: map_of_SomeD intro: rev_image_eqI)
  have d': "df' = map (\<lambda>col. if fst col = ''chunk'' then (''chunk'', chunks') else col) df"
    unfolding d setitem_column_def using mem by simp
  have labels: "map fst df' = map fst df"
    unfolding d' by (induction df) auto
  have other: "map_of df' k = map_of df k" if "k \<noteq> ''chunk''" for k
    unfolding d' using that by (induction df) auto
  have "map_of (map (\<lambda>col. if fst col = ''chunk'' then (''chunk'', chunks') else col) df) ''chunk''
          = Some chunks'" if "''chunk'' \<in> fst ` set df" for df :: frame
    using that by (induction df) auto
  with mem have new: "map_of df' ''chunk'' = Some chunks'"
    unfolding d' by simp
  from labels other g new series_apply_Inr[OF a] show ?thesis by blast
qed

text \<open>The outcomes of \<open>display_results\<close>, in the order in which its lines can raise.\<close>

lemma display_results_eq:
  "display_results results =
     (if all_null ''chunk'' results then Inl (KeyError [''chunk''])
      else (case series_apply truncate_chunk (map (cell ''chunk'') results) of
              Inl e \<Rightarrow> Inl e
            | Inr chunks' \<Rightarrow>
                (if filter (\<lambda>c. all_null c results) [''title'', ''@search.score''] \<noteq> []
                 then Inl (KeyError (filter (\<lambda>c. all_null c results) [''title'', ''@search.score'']))
                 else Inr (styled (map (\<lambda>c. (c, shown results chunks' c))
                        (first_cols @ filter (\<lambda>c. c \<notin> set first_cols) (kept_columns results)))))))"
proof (cases "all_null ''chunk'' results")
  case True
  then show ?thesis
    by (simp add: display_results_def truncate_chunks_def dropna_json_normalize
        getitem_column_tabulate set_kept_columns)
next
  case False
  then have k: "''chunk'' \<in> set (kept_columns results)"
    by (simp add: set_kept_columns)
  show ?thesis
  proof (cases "series_apply truncate_chunk (map (cell ''chunk'') results)")
    case (Inl e)
    with False k show ?thesis
      by (simp add: display_results_def truncate_chunks_def dropna_json_normalize
          getitem_column_tabulate series_apply_maybe_convert_objects)
  next
    case (Inr chunks')
    have m: "filter (\<lambda>k. k \<notin> set (kept_columns results))
               (first_cols @ filter (\<lambda>c. c \<notin> set first_cols) (kept_columns results))
             = filter (\<lambda>c. all_null c results) [''title'', ''@search.score'']"
      using k by (auto simp: first_cols_def set_kept_columns filter_empty_conv)
    show ?thesis
      using False k Inr
      by (simp add: display_results_def truncate_chunks_def dropna_json_normalize
          getitem_column_tabulate series_apply_maybe_convert_objects
          setitem_column_tabulate getitem_columns_tabulate m comp_def shown_def[abs_def] Let_def
          del: filter_append filter.simps)
  qed
qed

lemma display_results_Inr:
  assumes "display_results results = Inr st"
  obtains chunks' where
    "\<not> all_null ''chunk'' results" "\<not> all_null ''title'' results"
    "\<not> all_null ''@search.score'' results"
    "series_apply truncate_chunk (map (cell ''chunk'') results) = Inr chunks'"
    "table st = map (\<lambda>c. (c, shown results chunks' c))
                  (first_cols @ filter (\<lambda>c. c \<notin> set first_cols) (kept_columns results))"
  using assms unfolding display_results_eq
  by (auto simp: styled_def split: if_splits sum.splits)


text \<open>A result set with a value for each of the three fields and string chunks is displayed.\<close>

lemma display_results_succeeds:
  assumes "\<not> all_null ''title'' results" "\<not> all_null ''chunk'' results"
    "\<not> all_null ''@search.score'' results" "list_all is_str (map (cell ''chunk'') results)"
  shows "\<exists>st. display_results results = Inr st"
proof -
  from assms(4) have "list_all chunk_ok (map (cell ''chunk'') results)"
    by (auto simp: list_all_iff is_str_chunk_ok)
  then obtain ws where "series_apply truncate_chunk (map (cell ''chunk'') results) = Inr ws"
    using series_apply_ok by blast
  with assms(1-3) show ?thesis
    unfolding display_results_eq by simp
qed

lemma results0_displayed: "display_results results0 = Inr (styled table0)"
  by (simp add: display_results_eq results0_def table0_def all_null_def cell_def
      kept_columns_def column_names_def shown_def first_cols_def maybe_convert_objects_def)

text \<open>An integer column with a missing cell is shown as floats: 2^53 + 1 becomes 2^53.\<close>

lemma integer_column_with_missing_cell:
  "json_normalize [[(''page'', Int64 9007199254740993)], [(''chunk'', Str ''x'')]] =
     [(''page'', [Num 9007199254740992, Null]), (''chunk'', [Null, Str ''x''])]"
  by (simp add: json_normalize_def column_names_def cell_def maybe_convert_objects_def
      float_of_int_def round_to_53_bits_def Let_def)

text \<open>Every column that \<open>df[labels]\<close> returns is a column of \<open>df\<close>.\<close>

lemma map_filter_member:
  "(k, vs) \<in> set (List.map_filter (\<lambda>c. map_option (Pair c) (m c)) cs) \<Longrightarrow> m k = Some vs"
  by (induction cs) (auto split: option.splits)

lemma getitem_columns_Inr:
  assumes "getitem_columns df cs = Inr t"
  shows "\<forall>k vs. (k, vs) \<in> set t \<longrightarrow> map_of df k = Some vs"
proof -
  from assms have "t = List.map_filter (\<lambda>c. map_option (Pair c) (map_of df c)) cs"
    by (auto simp: getitem_columns_def Let_def split: if_splits)
  then show ?thesis
    using map_filter_member[of _ _ "map_of df" cs] by blast
qed

section \<open>Claims about \<open>display_results\<close>\<close>

text \<open>
  Claim C3. In the table that \<open>display_results\<close> returns, the chunk cell of every result
  whose chunk is a string \<open>c\<close> is the first 300 characters of \<open>c\<close> followed by \<open>...\<close>
  when \<open>c\<close> has more than 300 characters, and \<open>c\<close> itself when it has 300 or fewer; it
  is the shortened form if and only if \<open>c\<close> is longer than 300. The truncation step leaves
  the labels of the frame and every column other than \<open>chunk\<close> as they were before it, and
  every column of the table is a column of the frame as that step left it.
\<close>

theorem display_results_truncates_chunk_only:
  assumes "display_results results = Inr st"
  shows "(\<exists>chunks'. map_of (table st) ''chunk'' = Some chunks' \<and> length chunks' = length results \<and>
            (\<forall>i < length results. \<forall>c. cell ''chunk'' (results ! i) = Str c \<longrightarrow>
               (300 < length c \<longrightarrow> chunks' ! i = Str (take 300 c @ ''...'')) \<and>
               (length c \<le> 300 \<longrightarrow> chunks' ! i = Str c) \<and>
               (chunks' ! i = Str (take 300 c @ ''...'') \<longleftrightarrow> 300 < length c))) \<and>
         (\<exists>df'. truncate_chunks (dropna_all (json_normalize results)) = Inr df' \<and>
            map fst df' = map fst (dropna_all (json_normalize results)) \<and>
            (\<forall>k. k \<noteq> ''chunk'' \<longrightarrow>
               map_of df' k = map_of (dropna_all (json_normalize results)) k) \<and>
            (\<forall>k vs. (k, vs) \<in> set (table st) \<longrightarrow> map_of df' k = Some vs))"
proof -
  from assms obtain chunks' where
    ap: "series_apply truncate_chunk (map (cell ''chunk'') results) = Inr chunks'" and
    tb: "table st = map (\<lambda>c. (c, shown results chunks' c))
                  (first_cols @ filter (\<lambda>c. c \<notin> set first_cols) (kept_columns results))"
    by (rule display_results_Inr)
  have l2: "list_all2 (\<lambda>v w. truncate_chunk v = Inr w) (map (cell ''chunk'') results) chunks'"
    using ap by (rule series_apply_Inr)
  then have len: "length chunks' = length results"
    by (auto dest: list_all2_lengthD)
  have m: "map_of (table st) ''chunk'' = Some chunks'"
    unfolding tb by (simp add: map_of_tabulate first_cols_def shown_def)
  have cells: "chunks' ! i = Str (if 300 < length c then take 300 c @ ''...'' else c)"
    if "i < length results" "cell ''chunk'' (results ! i) = Str c" for i c
  proof -
    from l2 that(1) have "truncate_chunk (map (cell ''chunk'') results ! i) = Inr (chunks' ! i)"
      by (simp add: list_all2_conv_all_nth)
    with that show ?thesis by (simp split: if_splits)
  qed
  have first: "\<exists>chunks'. map_of (table st) ''chunk'' = Some chunks' \<and> length chunks' = length results \<and>
            (\<forall>i < length results. \<forall>c. cell ''chunk'' (results ! i) = Str c \<longrightarrow>
               (300 < length c \<longrightarrow> chunks' ! i = Str (take 300 c @ ''...'')) \<and>
               (length c \<le> 300 \<longrightarrow> chunks' ! i = Str c) \<and>
               (chunks' ! i = Str (take 300 c @ ''...'') \<longleftrightarrow> 300 < length c))"
    using m len cells by (intro exI[of _ chunks']) auto
  from assms obtain df' where
    t: "truncate_chunks (dropna_all (json_normalize results)) = Inr df'" and
    g: "getitem_columns df' (first_cols @ filter (\<lambda>col. col \<notin> set first_cols) (map fst df'))
          = Inr (table st)"
    by (auto simp: display_results_def Let_def styled_def split: sum.splits)
  from truncate_chunks_frame[OF t] have
    labels: "map fst df' = map fst (dropna_all (json_normalize results))" and
    other: "\<forall>k. k \<noteq> ''chunk'' \<longrightarrow> map_of df' k = map_of (dropna_all (json_normalize results)) k"
    by blast+
  from getitem_columns_Inr[OF g] have
    sel: "\<forall>k vs. (k, vs) \<in> set (table st) \<longrightarrow> map_of df' k = Some vs"
    by blast
  from first t labels other sel show ?thesis by blast
qed

theorem display_results_truncates_chunk_only_witness:
  "display_results results0 = Inr (styled table0) \<and>
   (\<exists>chunks'. map_of (table (styled table0)) ''chunk'' = Some chunks' \<and>
      chunks' ! 0 = Str (take 300 (replicate 301 (CHR ''x'')) @ ''...'') \<and>
      chunks' ! 1 = Str ''short'') \<and>
   (''title'', [Str ''Permisjon'', Str ''Telefon'']) \<in> set (table (styled table0)) \<and>
   map_of (dropna_all (json_normalize results0)) ''title''
     = Some [Str ''Permisjon'', Str ''Telefon'']"
proof -
  note h = results0_displayed
  note t1 = display_results_truncates_chunk_only[OF h, THEN conjunct1]
  note t2 = display_results_truncates_chunk_only[OF h, THEN conjunct2]
  from t1 obtain chunks' where
    m: "map_of (table (styled table0)) ''chunk'' = Some chunks'" and
    c: "\<forall>i < length results0. \<forall>c. cell ''chunk'' (results0 ! i) = Str c \<longrightarrow>
               (300 < length c \<longrightarrow> chunks' ! i = Str (take 300 c @ ''...'')) \<and>
               (length c \<le> 300 \<longrightarrow> chunks' ! i = Str c) \<and>
               (chunks' ! i = Str (take 300 c @ ''...'') \<longleftrightarrow> 300 < length c)"
    by blast
  from t2 obtain df' where
    other: "\<forall>k. k \<noteq> ''chunk'' \<longrightarrow>
               map_of df' k = map_of (dropna_all (json_normalize results0)) k" and
    sel: "\<forall>k vs. (k, vs) \<in> set (table (styled table0)) \<longrightarrow> map_of df' k = Some vs"
    by (elim exE conjE)
  have l: "0 < length results0" "1 < length results0"
    by (simp_all add: results0_def)
  have c0: "cell ''chunk'' (results0 ! 0) = Str (replicate 301 (CHR ''x''))"
    by (simp add: results0_def cell_def)
  have c1: "cell ''chunk'' (results0 ! 1) = Str ''short''"
    by (simp add: results0_def cell_def)
  from c l(1) c0 have w0: "chunks' ! 0 = Str (take 300 (replicate 301 (CHR ''x'')) @ ''...'')"
    by simp
  from c l(2) c1 have w1: "chunks' ! 1 = Str ''short''"
    by simp
  have tt: "(''title'', [Str ''Permisjon'', Str ''Telefon'']) \<in> set (table (styled table0))"
    by (simp add: table0_def styled_def)
  have ne: "''title'' \<noteq> ''chunk''" by simp
  note after = sel[rule_format, OF tt]
  note same = other[rule_format, OF ne]
  from after same have before:
    "map_of (dropna_all (json_normalize results0)) ''title'' = Some [Str ''Permisjon'', Str ''Telefon'']"
    by simp
  from m w0 w1 have ex: "\<exists>chunks'. map_of (table (styled table0)) ''chunk'' = Some chunks' \<and>
      chunks' ! 0 = Str (take 300 (replicate 301 (CHR ''x'')) @ ''...'') \<and>
      chunks' ! 1 = Str ''short''"
    by (intro exI[of _ chunks'] conjI)
  from h ex tt before show ?thesis by (intro conjI)
qed

text \<open>
  Claim C9, as the code has it. \<open>display_results\<close> raises \<open>KeyError\<close> for \<open>chunk\<close> on
  an empty result set and whenever no result has a chunk. Otherwise, when the chunk of some
  result is neither a string nor a list of at most 300 items (it is null, missing, a number
  or a longer list), the truncation step raises \<open>TypeError\<close>, whatever other field is
  lacking. Otherwise, when the results lack a title or a score, it raises \<open>KeyError\<close>
  naming the fields that are lacking. It returns a table in the remaining case and only
  then: for a non-empty result set with a value for each of \<open>title\<close>, \<open>chunk\<close> and
  \<open>@search.score\<close>.
\<close>

theorem display_results_partial:
  "display_results [] = Inl (KeyError [''chunk'']) \<and>
   (all_null ''chunk'' results \<longrightarrow> display_results results = Inl (KeyError [''chunk''])) \<and>
   (\<not> all_null ''chunk'' results \<and> \<not> list_all chunk_ok (map (cell ''chunk'') results) \<longrightarrow>
      display_results results = Inl TypeError) \<and>
   (\<not> all_null ''chunk'' results \<and> list_all chunk_ok (map (cell ''chunk'') results) \<and>
      (all_null ''title'' results \<or> all_null ''@search.score'' results) \<longrightarrow>
      display_results results =
        Inl (KeyError (filter (\<lambda>c. all_null c results) [''title'', ''@search.score'']))) \<and>
   ((\<exists>st. display_results results = Inr st) \<longleftrightarrow>
      \<not> all_null ''chunk'' results \<and> list_all chunk_ok (map (cell ''chunk'') results) \<and>
      \<not> all_null ''title'' results \<and> \<not> all_null ''@search.score'' results) \<and>
   (\<forall>st. display_results results = Inr st \<longrightarrow> results \<noteq> [])"
proof -
  have c1: "display_results [] = Inl (KeyError [''chunk''])"
    by (simp add: display_results_eq all_null_Nil)
  have c2: "all_null ''chunk'' results \<longrightarrow> display_results results = Inl (KeyError [''chunk''])"
    by (simp add: display_results_eq)
  have c3: "\<not> all_null ''chunk'' results \<and> \<not> list_all chunk_ok (map (cell ''chunk'') results) \<longrightarrow>
      display_results results = Inl TypeError"
    by (auto simp: display_results_eq dest: series_apply_not_ok)
  have ok: "\<exists>ws. series_apply truncate_chunk (map (cell ''chunk'') results) = Inr ws"
    if "list_all chunk_ok (map (cell ''chunk'') results)"
    using that by (rule series_apply_ok)
  have c4: "\<not> all_null ''chunk'' results \<and> list_all chunk_ok (map (cell ''chunk'') results) \<and>
      (all_null ''title'' results \<or> all_null ''@search.score'' results) \<longrightarrow>
      display_results results =
        Inl (KeyError (filter (\<lambda>c. all_null c results) [''title'', ''@search.score'']))"
    using ok unfolding display_results_eq by auto
  have c5a: "\<exists>st. display_results results = Inr st"
    if "\<not> all_null ''chunk'' results \<and> list_all chunk_ok (map (cell ''chunk'') results) \<and>
      \<not> all_null ''title'' results \<and> \<not> all_null ''@search.score'' results"
    using that ok unfolding display_results_eq by auto
  have c5b: "\<not> all_null ''chunk'' results \<and> list_all chunk_ok (map (cell ''chunk'') results) \<and>
      \<not> all_null ''title'' results \<and> \<not> all_null ''@search.score'' results"
    if s: "display_results results = Inr st" for st
  proof -
    from s obtain chunks' where
      a: "\<not> all_null ''chunk'' results" "\<not> all_null ''title'' results"
        "\<not> all_null ''@search.score'' results" and
      ap: "series_apply truncate_chunk (map (cell ''chunk'') results) = Inr chunks'"
      by (rule display_results_Inr)
    from ap have "list_all chunk_ok (map (cell ''chunk'') results)"
      using series_apply_not_ok by fastforce
    with a show ?thesis by simp
  qed
  have c5: "(\<exists>st. display_results results = Inr st) \<longleftrightarrow>
      \<not> all_null ''chunk'' results \<and> list_all chunk_ok (map (cell ''chunk'') results) \<and>
      \<not> all_null ''title'' results \<and> \<not> all_null ''@search.score'' results"
    using c5a c5b by blast
  have c6: "\<forall>st. display_results results = Inr st \<longrightarrow> results \<noteq> []"
    using c1 by auto
  from c1 c2 c3 c4 c5 c6 show ?thesis by (intro conjI)
qed

theorem display_results_partial_witness:
  "display_results [[(''title'', Str ''Telefon'')]] = Inl (KeyError [''chunk'']) \<and>
   all_null ''title'' results_null_chunk \<and>
   display_results results_null_chunk = Inl TypeError \<and>
   all_null ''title'' results_without_title \<and>
   display_results results_without_title = Inl (KeyError [''title'']) \<and>
   display_results results0 = Inr (styled table0) \<and> results0 \<noteq> [] \<and>
   \<not> all_null ''title'' results0"
proof -
  have a: "all_null ''chunk'' [[(''title'', Str ''Telefon'')]]"
    by (simp add: all_null_def cell_def)
  have n: "\<not> all_null ''chunk'' results_null_chunk \<and>
      \<not> list_all chunk_ok (map (cell ''chunk'') results_null_chunk)"
    by (simp add: results_null_chunk_def all_null_def cell_def)
  have nt: "all_null ''title'' results_null_chunk"
    by (simp add: results_null_chunk_def all_null_def cell_def)
  have b: "\<not> all_null ''chunk'' results_without_title \<and>
      list_all chunk_ok (map (cell ''chunk'') results_without_title) \<and>
      (all_null ''title'' results_without_title \<or> all_null ''@search.score'' results_without_title)"
    by (simp add: results_without_title_def all_null_def cell_def)
  have f: "filter (\<lambda>c. all_null c results_without_title) [''title'', ''@search.score'']
      = [''title'']"
    by (simp add: results_without_title_def all_null_def cell_def)
  note h = results0_displayed
  from a display_results_partial[of "[[(''title'', Str ''Telefon'')]]"]
  have w1: "display_results [[(''title'', Str ''Telefon'')]] = Inl (KeyError [''chunk''])"
    by blast
  from n display_results_partial[of results_null_chunk]
  have w2: "display_results results_null_chunk = Inl TypeError"
    by blast
  from b display_results_partial[of results_without_title]
  have w3: "display_results results_without_title = Inl (KeyError [''title''])"
    unfolding f by blast
  from h display_results_partial[of results0]
  have w4: "results0 \<noteq> [] \<and> \<not> all_null ''title'' results0"
    by blast
  have w5: "all_null ''title'' results_without_title"
    by (simp add: results_without_title_def all_null_def cell_def)
  from w1 nt w2 w5 w3 h w4 show ?thesis by blast
qed

text \<open>
  Against claim C9 as it is worded: a result set that lacks the title, one of whose chunks
  is null, ends in \<open>TypeError\<close> (from \<open>len\<close> of the null chunk), not in a \<open>KeyError\<close>.
\<close>

theorem display_results_null_chunk_counterexample:
  "all_null ''title'' results_null_chunk \<and>
   display_results results_null_chunk = Inl TypeError \<and>
   \<not> (\<exists>ks. display_results results_null_chunk = Inl (KeyError ks))"
  by (simp add: display_results_eq results_null_chunk_def all_null_def cell_def)

text \<open>
  Claim C10. The table that \<open>display_results\<close> returns (which it does only for a non-empty
  result set) has the columns \<open>title\<close>, \<open>chunk\<close>, \<open>@search.score\<close> first, in that order,
  followed by the other columns that \<open>dropna\<close> kept, in the order \<open>json_normalize\<close> gave
  them, which is the order of the fields' first appearance; and a field of the results that
  is not a column of the table is null in every result.
\<close>

theorem display_results_column_order:
  assumes "display_results results = Inr st"
  shows "results \<noteq> [] \<and>
         map fst (table st) =
           [''title'', ''chunk'', ''@search.score''] @
           filter (\<lambda>c. c \<notin> set [''title'', ''chunk'', ''@search.score''])
             (map fst (dropna_all (json_normalize results))) \<and>
         map fst (dropna_all (json_normalize results)) =
           filter (\<lambda>c. \<not> all_null c results) (column_names results) \<and>
         (\<forall>c \<in> set (column_names results). c \<notin> set (map fst (table st)) \<longrightarrow> all_null c results)"
proof -
  from assms obtain chunks' where
    nn: "\<not> all_null ''chunk'' results" and
    tb: "table st = map (\<lambda>c. (c, shown results chunks' c))
                  (first_cols @ filter (\<lambda>c. c \<notin> set first_cols) (kept_columns results))"
    by (rule display_results_Inr)
  have ne: "results \<noteq> []"
    using nn all_null_Nil by auto
  have k: "map fst (dropna_all (json_normalize results)) = kept_columns results"
    by (simp add: dropna_json_normalize comp_def)
  have cols: "map fst (table st) = first_cols @ filter (\<lambda>c. c \<notin> set first_cols) (kept_columns results)"
    unfolding tb by (simp add: comp_def)
  have dropped: "\<forall>c \<in> set (column_names results). c \<notin> set (map fst (table st)) \<longrightarrow> all_null c results"
    unfolding cols by (auto simp: set_kept_columns)
  have c1: "map fst (table st) =
           [''title'', ''chunk'', ''@search.score''] @
           filter (\<lambda>c. c \<notin> set [''title'', ''chunk'', ''@search.score''])
             (map fst (dropna_all (json_normalize results)))"
    unfolding k cols first_cols_def ..
  have c2: "map fst (dropna_all (json_normalize results)) =
           filter (\<lambda>c. \<not> all_null c results) (column_names results)"
    unfolding k kept_columns_def ..
  from ne c1 c2 dropped show ?thesis
    by (intro conjI)
qed

theorem display_results_column_order_witness:
  "display_results results0 = Inr (styled table0) \<and>
   map fst (table (styled table0)) = [''title'', ''chunk'', ''@search.score'', ''id''] \<and>
   column_names results0 = [''title'', ''chunk'', ''@search.score'', ''@search.captions'', ''id''] \<and>
   all_null ''@search.captions'' results0"
proof -
  note h = results0_displayed
  have cn: "column_names results0 = [''title'', ''chunk'', ''@search.score'', ''@search.captions'', ''id'']"
    by (simp add: column_names_def results0_def)
  have tb: "map fst (table (styled table0)) = [''title'', ''chunk'', ''@search.score'', ''id'']"
    by (simp add: table0_def styled_def)
  have m: "''@search.captions'' \<in> set (column_names results0)"
    unfolding cn by simp
  have n: "''@search.captions'' \<notin> set (map fst (table (styled table0)))"
    unfolding tb by simp
  from display_results_column_order[OF h, THEN conjunct2, THEN conjunct2, THEN conjunct2,
      THEN bspec, OF m, THEN mp, OF n]
  have "all_null ''@search.captions'' results0" .
  with h cn tb show ?thesis by (intro conjI)
qed

section \<open>The pager and the loops of the RAG notebook\<close>

text \<open>A \<open>for\<close> loop that ends normally leaves the pager with nothing to yield.\<close>

lemma for_each_exhausts: "for_each body xs st = Inr (st', rest) \<Longrightarrow> rest = []"
  by (induction xs arbitrary: st) (auto split: sum.splits)



lemma retrieve_exhausts: "retrieve s client q = Inr (out, pager) \<Longrightarrow> pager = []"
  by (auto simp: retrieve_def split: sum.splits dest: for_each_exhausts)

lemma generate_exhausted:
  "generate s env client q vec [] out = Inr g \<Longrightarrow>
     context' g = [] \<and> SYSTEM_MESSAGE g = system_message [] \<and> USER_MESSAGE g = q \<and>
     messages g = [\<lparr>role = ''system'', content = system_message []\<rparr>,
                   \<lparr>role = ''user'', content = q\<rparr>]"
  by (auto simp: generate_def Let_def split: sum.splits list.splits)

text \<open>A run of the RAG notebook that reaches its end went through each of its cells.\<close>

lemma rag_notebook_Inr:
  assumes "rag_notebook s env q = Inr g"
  obtains oc sc vec out1 out2 pager where
    "new_AzureOpenAI s env = Inr oc" "new_RagSearchClient s env = Inr sc"
    "prepare_question s env oc q = Inr (vec, out1)"
    "retrieve s sc q = Inr (out2, pager)"
    "generate s env oc q vec pager (out1 @ out2) = Inr g"
  using assms by (auto simp: rag_notebook_def split: sum.splits prod.splits)

text \<open>
  Whatever the services return, a run of the RAG notebook that reaches its end has built
  the system message around an empty context: the printing loop of step 5 has taken every
  result from the pager before the context loop of step 6 iterates it.
\<close>

lemma rag_notebook_context_empty:
  assumes "rag_notebook s env q = Inr g"
  shows "context' g = [] \<and> SYSTEM_MESSAGE g = system_message [] \<and> USER_MESSAGE g = q \<and>
     messages g = [\<lparr>role = ''system'', content = system_message []\<rparr>,
                   \<lparr>role = ''user'', content = q\<rparr>]"
proof -
  from assms obtain oc sc vec out1 out2 pager where
    r: "retrieve s sc q = Inr (out2, pager)" and
    g: "generate s env oc q vec pager (out1 @ out2) = Inr g"
    by (rule rag_notebook_Inr)
  from r have "pager = []" by (rule retrieve_exhausts)
  with g show ?thesis by (auto dest: generate_exhausted)
qed






section \<open>The runs on the concrete inputs\<close>

lemma new_AzureOpenAI_env0: "new_AzureOpenAI service0 env0 = Inr openai0"
  by (simp add: new_AzureOpenAI_def AzureOpenAI_def getenv_def env0_def service0_def openai0_def)

lemma new_RagSearchClient_env0: "new_RagSearchClient service0 env0 = Inr rag_client0"
  by (simp add: new_RagSearchClient_def SearchClient_def getenv_def env0_def service0_def
      rag_client0_def)

lemma load_environment_env0:
  "load_environment env0 =
     Inr (''https://aisearch-fastai-rag.search.windows.net'', ''sopravector2'',
          AzureKeyCredential [])"
  by (simp add: load_environment_def environ_getitem_def env0_def getenv_def
      new_AzureKeyCredential_def)

lemma new_SearchClient_env0:
  "new_SearchClient service0
     (''https://aisearch-fastai-rag.search.windows.net'', ''sopravector2'', AzureKeyCredential [])
   = Inr search_client0"
  by (simp add: new_SearchClient_def SearchClient_def service0_def search_client0_def)

lemma rag_notebook_service0:
  "\<exists>g. rag_notebook service0 env0 user_question = Inr g \<and>
        length (text_lines (printed g)) = 3 \<and>
        search_results g = [] \<and>
        context' g = [] \<and>
        SYSTEM_MESSAGE g = system_message [] \<and>
        messages g = [\<lparr>role = ''system'', content = system_message []\<rparr>,
                      \<lparr>role = ''user'', content = user_question\<rparr>]"
  unfolding rag_notebook_def new_AzureOpenAI_env0 new_RagSearchClient_env0
  by (simp add: prepare_question_def get_embedding_def retrieve_def
      generate_def service0_def rag_request_def index0_def mk_doc_def project_def
      print_result_def getitem_def text_lines_def)






section \<open>Claims about the searches and the RAG run\<close>

text \<open>
  Claim C1, evaluated on a run. The search returns the first three chunks of the index,
  and the context loop on those three results would join their chunks, each followed by two
  newlines. In the run of the notebook the printing loop prints the three chunks and leaves
  the pager empty, so the context is the empty string: the system message sent to the chat
  completion is the template around an empty context, next to the unchanged question as
  user message.
\<close>

theorem rag_context_empty_after_printing:
  "new_RagSearchClient service0 env0 = Inr rag_client0 \<and>
   search service0 rag_client0 (rag_request user_question) = Inr (take 3 index0) \<and>
   for_each add_chunk (take 3 index0) [] =
     Inr (''Ny telefon kan bestilles hvert annet aar.'' @ [CHR 0x0A, CHR 0x0A] @
          ''Pappapermisjon er femten uker.'' @ [CHR 0x0A, CHR 0x0A] @
          ''Fem uker ferie.'' @ [CHR 0x0A, CHR 0x0A], []) \<and>
   (\<exists>g. rag_notebook service0 env0 user_question = Inr g \<and>
        length (text_lines (printed g)) = 3 \<and>
        search_results g = [] \<and>
        context' g = [] \<and>
        SYSTEM_MESSAGE g = system_message [] \<and>
        messages g = [\<lparr>role = ''system'', content = system_message []\<rparr>,
                      \<lparr>role = ''user'', content = user_question\<rparr>])"
proof -
  have s: "search service0 rag_client0 (rag_request user_question) = Inr (take 3 index0)"
    by (simp add: service0_def rag_request_def project_def[abs_def])
  have f: "for_each add_chunk (take 3 index0) [] =
     Inr (''Ny telefon kan bestilles hvert annet aar.'' @ [CHR 0x0A, CHR 0x0A] @
          ''Pappapermisjon er femten uker.'' @ [CHR 0x0A, CHR 0x0A] @
          ''Fem uker ferie.'' @ [CHR 0x0A, CHR 0x0A], [])"
    by (simp add: index0_def mk_doc_def add_chunk_def getitem_def)
  from new_RagSearchClient_env0 s f rag_notebook_service0 show ?thesis by (intro conjI)
qed






text \<open>
  Claim C5. The hybrid search passes one query string twice: as \<open>search_text\<close>, and as the
  text of the single \<open>VectorizableTextQuery\<close> (50 nearest neighbours over \<open>text_vector\<close>)
  in \<open>vector_queries\<close>; the cell sends exactly this request.
\<close>

theorem hybrid_uses_one_query_string:
  "search_text (hybrid_request q) = Some q \<and>
   vector_queries (hybrid_request q) = Some [VectorizableTextQuery q 50 ''text_vector''] \<and>
   search_cell s client (hybrid_request q) =
     (case search s client
             \<lparr>search_text = Some q,
              vector_queries = Some [VectorizableTextQuery q 50 ''text_vector''],
              top_n = Some 5, select = Some [''title'', ''chunk''], query_type = None,
              semantic_configuration_name = None\<rparr> of
        Inl e \<Rightarrow> Inl e
      | Inr results \<Rightarrow> display_results results)"
  by (simp add: hybrid_request_def search_cell_def)

text \<open>
  Claim C6. The request of the semantic-ranker search is the request of the hybrid search
  with \<open>query_type\<close> set to \<open>semantic\<close> and a semantic configuration name added: the
  search text, the vector query, \<open>top\<close> and \<open>select\<close> are the same, and the hybrid request
  has neither of the two added arguments.
\<close>

theorem semantic_extends_hybrid:
  "semantic_request q =
     (hybrid_request q)\<lparr>query_type := Some ''semantic'',
        semantic_configuration_name := Some ''sopravector2-semantic-configuration''\<rparr> \<and>
   search_text (semantic_request q) = search_text (hybrid_request q) \<and>
   vector_queries (semantic_request q) = vector_queries (hybrid_request q) \<and>
   top_n (semantic_request q) = top_n (hybrid_request q) \<and>
   select (semantic_request q) = select (hybrid_request q) \<and>
   query_type (hybrid_request q) = None \<and>
   semantic_configuration_name (hybrid_request q) = None"
  by (simp add: semantic_request_def hybrid_request_def)

text \<open>
  Claim C7, as the code has it. \<open>get_embedding\<close> returns the embedding of the first element
  of the response's data. The retrieval request carries no vector: it carries the question
  itself as the text of a \<open>VectorizableTextQuery\<close> (3 nearest neighbours over
  \<open>text_vector\<close>), which the service embeds, so what the retrieval yields does not depend
  on the embeddings call. In a run, \<open>get_embedding\<close> of the question is printed with its
  length, and the question of the retrieval request is the user message of the chat call.
\<close>

theorem embedding_and_retrieval_query:
  "(embeddings_create s client (getenv env ''AZURE_OPENAI_EMBEDDING_DEPLOYED_MODEL_NAME'') inp
       = Inr (d # rest) \<longrightarrow> get_embedding s env client inp = Inr d) \<and>
   search_text (rag_request q) = None \<and>
   vector_queries (rag_request q) = Some [VectorizableTextQuery q 3 ''text_vector''] \<and>
   retrieve (s\<lparr>embeddings_create := other\<rparr>) sc q = retrieve s sc q \<and>
   (rag_notebook s env q = Inr g \<longrightarrow>
      (\<exists>oc. new_AzureOpenAI s env = Inr oc \<and>
         get_embedding s env oc q = Inr (user_question_vector g)) \<and>
      USER_MESSAGE g = q \<and>
      content (messages g ! 1) = q \<and>
      take 3 (printed g) = [[Str ''Text embedding''], [Lst (map Num (user_question_vector g))],
                            [Num (of_nat (length (user_question_vector g)))]])"
proof -
  have a: "get_embedding s env client inp = Inr d"
    if "embeddings_create s client (getenv env ''AZURE_OPENAI_EMBEDDING_DEPLOYED_MODEL_NAME'') inp
       = Inr (d # rest)"
    using that by (simp add: get_embedding_def)
  have b: "retrieve (s\<lparr>embeddings_create := other\<rparr>) sc q = retrieve s sc q"
    by (simp add: retrieve_def)
  have c: "(\<exists>oc. new_AzureOpenAI s env = Inr oc \<and>
         get_embedding s env oc q = Inr (user_question_vector g)) \<and>
      USER_MESSAGE g = q \<and> content (messages g ! 1) = q \<and>
      take 3 (printed g) = [[Str ''Text embedding''], [Lst (map Num (user_question_vector g))],
                            [Num (of_nat (length (user_question_vector g)))]]"
    if "rag_notebook s env q = Inr g"
    using that
    by (auto simp: rag_notebook_def prepare_question_def generate_def Let_def
        split: sum.splits prod.splits list.splits)
  from a b c show ?thesis
    by (simp add: rag_request_def)
qed

theorem embedding_and_retrieval_query_witness:
  "embeddings_create service0 openai0
       (getenv env0 ''AZURE_OPENAI_EMBEDDING_DEPLOYED_MODEL_NAME'') user_question
     = Inr [[1 / 10, 2 / 10]] \<and>
   get_embedding service0 env0 openai0 user_question = Inr [1 / 10, 2 / 10] \<and>
   (\<exists>g. rag_notebook service0 env0 user_question = Inr g \<and> USER_MESSAGE g = user_question \<and>
        new_AzureOpenAI service0 env0 = Inr openai0 \<and>
        get_embedding service0 env0 openai0 user_question = Inr (user_question_vector g))"
proof -
  have e: "embeddings_create service0 openai0
       (getenv env0 ''AZURE_OPENAI_EMBEDDING_DEPLOYED_MODEL_NAME'') user_question
     = Inr ([1 / 10, 2 / 10] # [])"
    by (simp add: service0_def)
  from rag_notebook_service0 obtain g where r: "rag_notebook service0 env0 user_question = Inr g"
    by blast
  note t = embedding_and_retrieval_query[where s = service0 and env = env0
      and client = openai0 and inp = user_question and q = user_question
      and d = "[1 / 10, 2 / 10]" and rest = "[]" and g = g]
  from t e have w1: "get_embedding service0 env0 openai0 user_question = Inr [1 / 10, 2 / 10]"
    by blast
  from t r have "\<exists>oc. new_AzureOpenAI service0 env0 = Inr oc \<and>
      get_embedding service0 env0 oc user_question = Inr (user_question_vector g)"
    by blast
  then have w2: "get_embedding service0 env0 openai0 user_question = Inr (user_question_vector g)"
    by (simp add: new_AzureOpenAI_env0)
  from t r have w3: "USER_MESSAGE g = user_question"
    by blast
  from e w1 r w2 w3 new_AzureOpenAI_env0 show ?thesis by auto
qed

text \<open>
  Against claim C7 as it is worded: on a run where \<open>get_embedding\<close> of the question is a
  given vector, the retrieval request holds no \<open>VectorizedQuery\<close> of that vector, and the
  retrieval yields the same with an embedding service that returns another vector.
\<close>

theorem retrieval_vector_counterexample:
  "new_AzureOpenAI service0 env0 = Inr openai0 \<and>
   new_RagSearchClient service0 env0 = Inr rag_client0 \<and>
   get_embedding service0 env0 openai0 user_question = Inr [1 / 10, 2 / 10] \<and>
   \<not> (\<exists>k f. vector_queries (rag_request user_question) =
              Some [VectorizedQuery [1 / 10, 2 / 10] k f]) \<and>
   retrieve (service0\<lparr>embeddings_create := (\<lambda>client model inp. Inr [[7, 7, 7]])\<rparr>)
      rag_client0 user_question
     = retrieve service0 rag_client0 user_question"
proof -
  have a: "get_embedding service0 env0 openai0 user_question = Inr [1 / 10, 2 / 10]"
    by (simp add: get_embedding_def service0_def)
  have b: "\<not> (\<exists>k f. vector_queries (rag_request user_question) =
              Some [VectorizedQuery [1 / 10, 2 / 10] k f])"
    by (simp add: rag_request_def)
  have c: "retrieve (service0\<lparr>embeddings_create := (\<lambda>client model inp. Inr [[7, 7, 7]])\<rparr>)
      rag_client0 user_question
     = retrieve service0 rag_client0 user_question"
    by (simp add: retrieve_def)
  from new_AzureOpenAI_env0 new_RagSearchClient_env0 a b c show ?thesis
    by (intro conjI)
qed

section \<open>Claims about the credentials\<close>

text \<open>
  The search notebook has no fallback: whenever its load step succeeds, the credential is
  an \<open>AzureKeyCredential\<close> of the value of \<open>AZURE_SEARCH_ADMIN_KEY\<close>, the empty string
  included.
\<close>

lemma load_environment_key_only:
  "load_environment env = Inr (ep, ix, cred) \<Longrightarrow>
     env ''AZURE_SEARCH_SERVICE_ENDPOINT'' = Some ep \<and> env ''AZURE_SEARCH_INDEX'' = Some ix \<and>
     (\<exists>k. env ''AZURE_SEARCH_ADMIN_KEY'' = Some k \<and> cred = AzureKeyCredential k)"
  by (auto simp: load_environment_def environ_getitem_def new_AzureKeyCredential_def getenv_def
      split: option.splits sum.splits)

lemma new_SearchClient_credential:
  "new_SearchClient s (ep, ix, cred) = Inr sc \<Longrightarrow>
     endpoint sc = ep \<and> index_name sc = ix \<and> credential sc = cred"
  by (auto simp: new_SearchClient_def SearchClient_def split: option.splits)

text \<open>
  Claim C8, as the code has it. It holds of the two clients of the RAG notebook whenever
  their constructors return: the Azure OpenAI client has \<open>api_key\<close> exactly when
  \<open>AZURE_OPENAI_API_KEY\<close> is set to a non-empty string, and the token provider of
  \<open>DefaultAzureCredential\<close> exactly when it is unset or empty; the search client has an
  \<open>AzureKeyCredential\<close> exactly when \<open>AZURE_SEARCH_ADMIN_KEY\<close> is set to a non-empty
  string, and \<open>DefaultAzureCredential\<close> exactly when it is unset or empty. Neither
  constructor returns in every environment: without \<open>AZURE_OPENAI_ENDPOINT\<close> the first
  raises \<open>ValueError\<close>, and so does the second without \<open>AZURE_SEARCH_SERVICE_ENDPOINT\<close>
  or \<open>AZURE_SEARCH_INDEX_NAME\<close>, whatever the key variables; with an endpoint (and an index
  name) that the constructor accepts, the client is built on it. The client of the search
  notebook has no fallback: whenever it is built, its credential is the
  \<open>AzureKeyCredential\<close> of the value of \<open>AZURE_SEARCH_ADMIN_KEY\<close>, and with the endpoint
  and the index set, the load step returns that credential for every value of the key
  variable and raises \<open>TypeError\<close> when it is unset.
\<close>

theorem credentials_by_key_variable:
  "(new_AzureOpenAI s env = Inr oc \<longrightarrow>
      (auth oc = api_key k \<longleftrightarrow> env ''AZURE_OPENAI_API_KEY'' = Some k \<and> k \<noteq> []) \<and>
      (auth oc =
         azure_ad_token_provider
           (get_bearer_token_provider DefaultAzureCredential
              ''https://cognitiveservices.azure.com/.default'') \<longleftrightarrow>
         env ''AZURE_OPENAI_API_KEY'' = None \<or> env ''AZURE_OPENAI_API_KEY'' = Some [])) \<and>
   (new_RagSearchClient s env = Inr sc \<longrightarrow>
      (credential sc = AzureKeyCredential k \<longleftrightarrow>
         env ''AZURE_SEARCH_ADMIN_KEY'' = Some k \<and> k \<noteq> []) \<and>
      (credential sc = DefaultAzureCredential \<longleftrightarrow>
         env ''AZURE_SEARCH_ADMIN_KEY'' = None \<or> env ''AZURE_SEARCH_ADMIN_KEY'' = Some [])) \<and>
   (env ''AZURE_OPENAI_ENDPOINT'' = None \<longrightarrow> new_AzureOpenAI s env = Inl ValueError) \<and>
   (env ''AZURE_SEARCH_SERVICE_ENDPOINT'' = None \<or> env ''AZURE_SEARCH_INDEX_NAME'' = None \<longrightarrow>
      new_RagSearchClient s env = Inl ValueError) \<and>
   (env ''AZURE_OPENAI_ENDPOINT'' = Some aep \<and>
      (\<forall>au. openai_client_check s au aep ''2024-10-21'' = None) \<longrightarrow>
      (\<exists>oc. new_AzureOpenAI s env = Inr oc \<and> azure_endpoint oc = aep)) \<and>
   (env ''AZURE_SEARCH_SERVICE_ENDPOINT'' = Some ep \<and> env ''AZURE_SEARCH_INDEX_NAME'' = Some ixn \<and>
      (\<forall>cred. search_client_check s ep ixn cred = None) \<longrightarrow>
      (\<exists>sc. new_RagSearchClient s env = Inr sc \<and> endpoint sc = ep \<and> index_name sc = ixn)) \<and>
   (load_environment env = Inr args \<and> new_SearchClient s args = Inr nc \<longrightarrow>
      (\<exists>k'. env ''AZURE_SEARCH_ADMIN_KEY'' = Some k' \<and> credential nc = AzureKeyCredential k')) \<and>
   (env ''AZURE_SEARCH_SERVICE_ENDPOINT'' = Some ep \<and> env ''AZURE_SEARCH_INDEX'' = Some ix \<longrightarrow>
      load_environment env =
        (case env ''AZURE_SEARCH_ADMIN_KEY'' of
           None \<Rightarrow> Inl TypeError
         | Some k' \<Rightarrow> Inr (ep, ix, AzureKeyCredential k')))"
proof -
  have c1: "(auth oc = api_key k \<longleftrightarrow> env ''AZURE_OPENAI_API_KEY'' = Some k \<and> k \<noteq> []) \<and>
      (auth oc =
         azure_ad_token_provider
           (get_bearer_token_provider DefaultAzureCredential
              ''https://cognitiveservices.azure.com/.default'') \<longleftrightarrow>
         env ''AZURE_OPENAI_API_KEY'' = None \<or> env ''AZURE_OPENAI_API_KEY'' = Some [])"
    if "new_AzureOpenAI s env = Inr oc"
    using that
    by (auto simp: new_AzureOpenAI_def AzureOpenAI_def getenv_def Let_def
        split: option.splits if_splits)
  have c2: "(credential sc = AzureKeyCredential k \<longleftrightarrow>
         env ''AZURE_SEARCH_ADMIN_KEY'' = Some k \<and> k \<noteq> []) \<and>
      (credential sc = DefaultAzureCredential \<longleftrightarrow>
         env ''AZURE_SEARCH_ADMIN_KEY'' = None \<or> env ''AZURE_SEARCH_ADMIN_KEY'' = Some [])"
    if "new_RagSearchClient s env = Inr sc"
    using that
    by (auto simp: new_RagSearchClient_def SearchClient_def getenv_def Let_def
        split: option.splits if_splits)
  have c3: "env ''AZURE_OPENAI_ENDPOINT'' = None \<longrightarrow> new_AzureOpenAI s env = Inl ValueError"
    by (simp add: new_AzureOpenAI_def AzureOpenAI_def getenv_def Let_def split: option.splits)
  have c4: "env ''AZURE_SEARCH_SERVICE_ENDPOINT'' = None \<or> env ''AZURE_SEARCH_INDEX_NAME'' = None \<longrightarrow>
      new_RagSearchClient s env = Inl ValueError"
    by (auto simp: new_RagSearchClient_def SearchClient_def getenv_def Let_def
        split: option.splits)
  have c5: "env ''AZURE_OPENAI_ENDPOINT'' = Some aep \<and>
      (\<forall>au. openai_client_check s au aep ''2024-10-21'' = None) \<longrightarrow>
      (\<exists>oc. new_AzureOpenAI s env = Inr oc \<and> azure_endpoint oc = aep)"
    by (simp add: new_AzureOpenAI_def AzureOpenAI_def getenv_def Let_def split: option.splits)
  have c6: "env ''AZURE_SEARCH_SERVICE_ENDPOINT'' = Some ep \<and>
      env ''AZURE_SEARCH_INDEX_NAME'' = Some ixn \<and>
      (\<forall>cred. search_client_check s ep ixn cred = None) \<longrightarrow>
      (\<exists>sc. new_RagSearchClient s env = Inr sc \<and> endpoint sc = ep \<and> index_name sc = ixn)"
    by (simp add: new_RagSearchClient_def SearchClient_def getenv_def Let_def
        split: option.splits)
  have c7: "\<exists>k'. env ''AZURE_SEARCH_ADMIN_KEY'' = Some k' \<and> credential nc = AzureKeyCredential k'"
    if h: "load_environment env = Inr args \<and> new_SearchClient s args = Inr nc"
  proof -
    obtain ep' ix' cred' where a: "args = (ep', ix', cred')"
      by (cases args) auto
    from h a load_environment_key_only[of env ep' ix' cred']
    obtain k' where k: "env ''AZURE_SEARCH_ADMIN_KEY'' = Some k'" "cred' = AzureKeyCredential k'"
      by auto
    from h a new_SearchClient_credential[of s ep' ix' cred' nc] have "credential nc = cred'"
      by simp
    with k show ?thesis by simp
  qed
  have c8: "env ''AZURE_SEARCH_SERVICE_ENDPOINT'' = Some ep \<and> env ''AZURE_SEARCH_INDEX'' = Some ix \<longrightarrow>
      load_environment env =
        (case env ''AZURE_SEARCH_ADMIN_KEY'' of
           None \<Rightarrow> Inl TypeError
         | Some k' \<Rightarrow> Inr (ep, ix, AzureKeyCredential k'))"
    by (simp add: load_environment_def environ_getitem_def getenv_def new_AzureKeyCredential_def
        split: option.splits)
  from c1 c2 c7 have i1: "new_AzureOpenAI s env = Inr oc \<longrightarrow>
      (auth oc = api_key k \<longleftrightarrow> env ''AZURE_OPENAI_API_KEY'' = Some k \<and> k \<noteq> []) \<and>
      (auth oc =
         azure_ad_token_provider
           (get_bearer_token_provider DefaultAzureCredential
              ''https://cognitiveservices.azure.com/.default'') \<longleftrightarrow>
         env ''AZURE_OPENAI_API_KEY'' = None \<or> env ''AZURE_OPENAI_API_KEY'' = Some [])"
    and i2: "new_RagSearchClient s env = Inr sc \<longrightarrow>
      (credential sc = AzureKeyCredential k \<longleftrightarrow>
         env ''AZURE_SEARCH_ADMIN_KEY'' = Some k \<and> k \<noteq> []) \<and>
      (credential sc = DefaultAzureCredential \<longleftrightarrow>
         env ''AZURE_SEARCH_ADMIN_KEY'' = None \<or> env ''AZURE_SEARCH_ADMIN_KEY'' = Some [])"
    and i7: "load_environment env = Inr args \<and> new_SearchClient s args = Inr nc \<longrightarrow>
      (\<exists>k'. env ''AZURE_SEARCH_ADMIN_KEY'' = Some k' \<and> credential nc = AzureKeyCredential k')"
    by blast+
  from i1 i2 c3 c4 c5 c6 i7 c8 show ?thesis
    by (intro conjI)
qed

theorem credentials_by_key_variable_witness:
  "new_AzureOpenAI service0 env0 = Inr openai0 \<and>
   env0 ''AZURE_OPENAI_API_KEY'' = Some [] \<and>
   auth openai0 =
     azure_ad_token_provider
       (get_bearer_token_provider DefaultAzureCredential
          ''https://cognitiveservices.azure.com/.default'') \<and>
   (\<exists>oc. new_AzureOpenAI service0 (env0(''AZURE_OPENAI_API_KEY'' \<mapsto> ''secret'')) = Inr oc \<and>
      azure_endpoint oc = ''https://aoai-fastai-rag.openai.azure.com/'' \<and>
      auth oc = api_key ''secret'') \<and>
   new_RagSearchClient service0 env0 = Inr rag_client0 \<and>
   credential rag_client0 = DefaultAzureCredential \<and>
   (\<exists>sc. new_RagSearchClient service0 (env0(''AZURE_SEARCH_ADMIN_KEY'' \<mapsto> ''secret'')) = Inr sc \<and>
      endpoint sc = ''https://aisearch-fastai-rag.search.windows.net'' \<and>
      index_name sc = ''sopravector'' \<and>
      credential sc = AzureKeyCredential ''secret'') \<and>
   new_AzureOpenAI service0 (env0(''AZURE_OPENAI_ENDPOINT'' := None)) = Inl ValueError \<and>
   new_RagSearchClient service0 (env0(''AZURE_SEARCH_SERVICE_ENDPOINT'' := None)) = Inl ValueError \<and>
   credential search_client0 = AzureKeyCredential [] \<and>
   load_environment (env0(''AZURE_SEARCH_ADMIN_KEY'' := None)) = Inl TypeError"
proof -
  let ?prov = "azure_ad_token_provider
       (get_bearer_token_provider DefaultAzureCredential
          ''https://cognitiveservices.azure.com/.default'')"
  let ?ek = "env0(''AZURE_OPENAI_API_KEY'' \<mapsto> ''secret'')"
  let ?sk = "env0(''AZURE_SEARCH_ADMIN_KEY'' \<mapsto> ''secret'')"
  let ?sep = "''https://aisearch-fastai-rag.search.windows.net''"
  let ?args = "(?sep, ''sopravector2'', AzureKeyCredential [])"
  have k0: "env0 ''AZURE_OPENAI_API_KEY'' = Some []" "env0 ''AZURE_SEARCH_ADMIN_KEY'' = Some []"
    by (simp_all add: env0_def)
  have w1: "auth openai0 = ?prov"
    using credentials_by_key_variable[where s = service0 and env = env0 and oc = openai0,
        THEN conjunct1, THEN mp, OF new_AzureOpenAI_env0, THEN conjunct2] k0
    by simp
  have h2: "?ek ''AZURE_OPENAI_ENDPOINT'' = Some ''https://aoai-fastai-rag.openai.azure.com/'' \<and>
      (\<forall>au. openai_client_check service0 au ''https://aoai-fastai-rag.openai.azure.com/''
         ''2024-10-21'' = None)"
    by (simp add: env0_def service0_def)
  from credentials_by_key_variable[where s = service0 and env = ?ek
        and aep = "''https://aoai-fastai-rag.openai.azure.com/''",
        THEN conjunct2, THEN conjunct2, THEN conjunct2, THEN conjunct2, THEN conjunct1,
        THEN mp, OF h2]
  obtain oc where o: "new_AzureOpenAI service0 ?ek = Inr oc"
    and oe: "azure_endpoint oc = ''https://aoai-fastai-rag.openai.azure.com/''"
    by blast
  have "auth oc = api_key ''secret''"
    using credentials_by_key_variable[where s = service0 and env = ?ek and oc = oc
        and k = "''secret''", THEN conjunct1, THEN mp, OF o, THEN conjunct1]
    by simp
  with o oe have w2: "\<exists>oc. new_AzureOpenAI service0 ?ek = Inr oc \<and>
      azure_endpoint oc = ''https://aoai-fastai-rag.openai.azure.com/'' \<and>
      auth oc = api_key ''secret''"
    by blast
  have w3: "credential rag_client0 = DefaultAzureCredential"
    using credentials_by_key_variable[where s = service0 and env = env0 and sc = rag_client0,
        THEN conjunct2, THEN conjunct1, THEN mp, OF new_RagSearchClient_env0, THEN conjunct2] k0
    by simp
  have h4: "?sk ''AZURE_SEARCH_SERVICE_ENDPOINT'' = Some ?sep \<and>
      ?sk ''AZURE_SEARCH_INDEX_NAME'' = Some ''sopravector'' \<and>
      (\<forall>cred. search_client_check service0 ?sep ''sopravector'' cred = None)"
    by (simp add: env0_def service0_def)
  from credentials_by_key_variable[where s = service0 and env = ?sk
        and ep = ?sep and ixn = "''sopravector''",
        THEN conjunct2, THEN conjunct2, THEN conjunct2, THEN conjunct2, THEN conjunct2,
        THEN conjunct1, THEN mp, OF h4]
  obtain sc where s: "new_RagSearchClient service0 ?sk = Inr sc"
    and se: "endpoint sc = ?sep" and si: "index_name sc = ''sopravector''"
    by blast
  have "credential sc = AzureKeyCredential ''secret''"
    using credentials_by_key_variable[where s = service0 and env = ?sk and sc = sc
        and k = "''secret''", THEN conjunct2, THEN conjunct1, THEN mp, OF s, THEN conjunct1]
    by simp
  with s se si have w4: "\<exists>sc. new_RagSearchClient service0 ?sk = Inr sc \<and>
      endpoint sc = ?sep \<and> index_name sc = ''sopravector'' \<and>
      credential sc = AzureKeyCredential ''secret''"
    by blast
  have w5: "new_AzureOpenAI service0 (env0(''AZURE_OPENAI_ENDPOINT'' := None)) = Inl ValueError"
    using credentials_by_key_variable[where s = service0
        and env = "env0(''AZURE_OPENAI_ENDPOINT'' := None)",
        THEN conjunct2, THEN conjunct2, THEN conjunct1]
    by simp
  have w6: "new_RagSearchClient service0 (env0(''AZURE_SEARCH_SERVICE_ENDPOINT'' := None)) =
      Inl ValueError"
    using credentials_by_key_variable[where s = service0
        and env = "env0(''AZURE_SEARCH_SERVICE_ENDPOINT'' := None)",
        THEN conjunct2, THEN conjunct2, THEN conjunct2, THEN conjunct1]
    by simp
  have h7: "load_environment env0 = Inr ?args \<and> new_SearchClient service0 ?args = Inr search_client0"
    using load_environment_env0 new_SearchClient_env0 by simp
  have w7: "credential search_client0 = AzureKeyCredential []"
    using credentials_by_key_variable[where s = service0 and env = env0 and args = ?args
        and nc = search_client0,
        THEN conjunct2, THEN conjunct2, THEN conjunct2, THEN conjunct2, THEN conjunct2,
        THEN conjunct2, THEN conjunct1, THEN mp, OF h7] k0
    by simp
  have h8: "(env0(''AZURE_SEARCH_ADMIN_KEY'' := None)) ''AZURE_SEARCH_SERVICE_ENDPOINT'' = Some ?sep \<and>
      (env0(''AZURE_SEARCH_ADMIN_KEY'' := None)) ''AZURE_SEARCH_INDEX'' = Some ''sopravector2''"
    by (simp add: env0_def)
  have w8: "load_environment (env0(''AZURE_SEARCH_ADMIN_KEY'' := None)) = Inl TypeError"
    using credentials_by_key_variable[where env = "env0(''AZURE_SEARCH_ADMIN_KEY'' := None)"
        and ep = ?sep and ix = "''sopravector2''",
        THEN conjunct2, THEN conjunct2, THEN conjunct2, THEN conjunct2, THEN conjunct2,
        THEN conjunct2, THEN conjunct2, THEN mp, OF h8]
    by simp
  from new_AzureOpenAI_env0 k0(1) w1 w2 new_RagSearchClient_env0 w3 w4 w5 w6 w7 w8
  show ?thesis
    by (intro conjI)
qed

text \<open>
  Against claim C8 as it is worded. In the environment of the \<open>.env\<close> cells, where
  \<open>AZURE_SEARCH_ADMIN_KEY\<close> is the empty string, the client of the search notebook is
  built with an \<open>AzureKeyCredential\<close> (of the empty key), not with
  \<open>DefaultAzureCredential\<close>; and with a non-empty key in \<open>AZURE_SEARCH_ADMIN_KEY\<close> and
  \<open>AZURE_OPENAI_API_KEY\<close> but no endpoint, the RAG notebook builds no client at all.
\<close>

theorem key_credential_counterexample:
  "env0 ''AZURE_SEARCH_ADMIN_KEY'' = Some [] \<and>
   (\<exists>args. load_environment env0 = Inr args \<and>
      new_SearchClient service0 args = Inr search_client0) \<and>
   credential search_client0 = AzureKeyCredential [] \<and>
   credential search_client0 \<noteq> DefaultAzureCredential \<and>
   \<not> (\<exists>sc. new_RagSearchClient service0
         (env0(''AZURE_SEARCH_ADMIN_KEY'' \<mapsto> ''secret'', ''AZURE_SEARCH_SERVICE_ENDPOINT'' := None))
         = Inr sc) \<and>
   \<not> (\<exists>oc. new_AzureOpenAI service0
         (env0(''AZURE_OPENAI_API_KEY'' \<mapsto> ''secret'', ''AZURE_OPENAI_ENDPOINT'' := None))
         = Inr oc)"
proof -
  have a: "env0 ''AZURE_SEARCH_ADMIN_KEY'' = Some []"
    by (simp add: env0_def)
  have b: "\<exists>args. load_environment env0 = Inr args \<and>
      new_SearchClient service0 args = Inr search_client0"
    using load_environment_env0 new_SearchClient_env0 by simp
  have c: "credential search_client0 = AzureKeyCredential []"
      "credential search_client0 \<noteq> DefaultAzureCredential"
    by (simp_all add: search_client0_def)
  have d: "new_RagSearchClient service0
         (env0(''AZURE_SEARCH_ADMIN_KEY'' \<mapsto> ''secret'', ''AZURE_SEARCH_SERVICE_ENDPOINT'' := None))
         = Inl ValueError"
    by (simp add: new_RagSearchClient_def SearchClient_def getenv_def Let_def)
  have e: "new_AzureOpenAI service0
         (env0(''AZURE_OPENAI_API_KEY'' \<mapsto> ''secret'', ''AZURE_OPENAI_ENDPOINT'' := None))
         = Inl ValueError"
    by (simp add: new_AzureOpenAI_def AzureOpenAI_def getenv_def Let_def)
  from a b c d e show ?thesis by simp
qed

end
